theory Spec2Isabelle
  imports Complex_Main "HOL-Library.AList" "HOL-Library.Multiset"
begin

section \<open>Data model\<close>

text \<open>
  Values of the program are the values that \<^verbatim>\<open>json.loads\<close> produces and that the
  formatters store in a row: \<^verbatim>\<open>None\<close>, booleans, numbers, strings, lists and
  dictionaries. Python's \<^verbatim>\<open>int\<close> and finite \<^verbatim>\<open>float\<close> values are both modelled by
  the rational they denote (so \<^verbatim>\<open>float(x)\<close> of a number is that number, and a decimal
  literal of the source such as \<^verbatim>\<open>0.33\<close> is the rational \<open>33/100\<close>); rounding, overflow,
  infinities and NaN are outside the model. A dictionary is an association list in
  insertion order, read with \<^const>\<open>map_of\<close>.
\<close>

datatype json =
    JNull
  | JBool bool
  | JNum rat
  | JStr string
  | JArr "json list"
  | JObj "(string \<times> json) list"

text \<open>The exceptions the module and the builtins it calls can raise.\<close>

datatype error =
    KeyError
  | AttributeError
  | TypeError
  | ValueError string
  | JSONDecodeError

text \<open>
  A row is a Python \<^verbatim>\<open>dict\<close> from column name to value. \<^verbatim>\<open>row[k] = v\<close> is
  \<^const>\<open>AList.update\<close>: an existing key keeps its position and gets the new value, a
  new key is appended.
\<close>

type_synonym row = "(string \<times> json) list"

definition keys :: "row \<Rightarrow> string list" where
  "keys r = map fst r"

text \<open>
  The two enumerations imported from \<^verbatim>\<open>plugin_io_utils\<close>. \<^verbatim>\<open>OutputFormatEnum\<close>
  has the two members the source compares with. For \<^verbatim>\<open>ErrorHandlingEnum\<close> the
  specification recognises three policies: log and substitute empty, raise and abort,
  silently substitute empty.
\<close>

datatype OutputFormatEnum = SINGLE_COLUMN | MULTIPLE_COLUMNS

datatype ErrorHandlingEnum = LOG | FAIL | IGNORE

datatype credentials = Credentials json

datatype client = LanguageServiceClient "credentials option"

text \<open>
  What the module takes from outside the repository's own logic is a parameter of the
  model: the name generator \<^verbatim>\<open>generate_unique(name, existing_names, prefix)\<close>, the JSON
  decoder \<^verbatim>\<open>json.loads\<close> (\<open>None\<close> when it raises), the names of the members of
  \<^verbatim>\<open>language.enums.Entity.Type\<close> in definition order, Python's \<^verbatim>\<open>float\<close> on a string
  (\<open>None\<close> when it raises \<^verbatim>\<open>ValueError\<close>), and
  \<^verbatim>\<open>service_account.Credentials.from_service_account_info\<close>.
\<close>

record collaborators =
  generate_unique :: "string \<Rightarrow> string list \<Rightarrow> string \<Rightarrow> string"
  json_loads :: "string \<Rightarrow> json option"
  entity_type_members :: "string list"
  float_of_str :: "string \<Rightarrow> rat option"
  from_service_account_info :: "json \<Rightarrow> error + credentials"

section \<open>Python builtins used by the module\<close>

text \<open>\<^verbatim>\<open>d.get(k, default)\<close>: only a dictionary has the method.\<close>

fun py_get :: "json \<Rightarrow> string \<Rightarrow> json \<Rightarrow> error + json" where
  "py_get (JObj kv) k d = Inr (case map_of kv k of Some v \<Rightarrow> v | None \<Rightarrow> d)"
| "py_get _ k d = Inl AttributeError"

text \<open>The numeric value of a number or a boolean (\<^verbatim>\<open>True\<close> is 1, \<^verbatim>\<open>False\<close> is 0).\<close>

fun num_val :: "json \<Rightarrow> rat option" where
  "num_val (JNum r) = Some r"
| "num_val (JBool b) = Some (if b then 1 else 0)"
| "num_val _ = None"

text \<open>\<^verbatim>\<open>float(x)\<close>.\<close>

fun py_float :: "collaborators \<Rightarrow> json \<Rightarrow> error + rat" where
  "py_float env (JNum r) = Inr r"
| "py_float env (JBool b) = Inr (if b then 1 else 0)"
| "py_float env (JStr s) =
     (case float_of_str env s of
        Some r \<Rightarrow> Inr r
      | None \<Rightarrow> Inl (ValueError ''could not convert string to float''))"
| "py_float env _ = Inl TypeError"

text \<open>
  \<^verbatim>\<open>x < c\<close> and \<^verbatim>\<open>x > c\<close> for a numeric literal \<open>c\<close>: defined between numbers, a
  \<^verbatim>\<open>TypeError\<close> for every other left operand.
\<close>

definition lt_num :: "json \<Rightarrow> rat \<Rightarrow> error + bool" where
  "lt_num x c = (case num_val x of Some s \<Rightarrow> Inr (s < c) | None \<Rightarrow> Inl TypeError)"

definition gt_num :: "json \<Rightarrow> rat \<Rightarrow> error + bool" where
  "gt_num x c = (case num_val x of Some s \<Rightarrow> Inr (s > c) | None \<Rightarrow> Inl TypeError)"

section \<open>Sentiment scaling\<close>

text \<open>
  \<^verbatim>\<open>scale_sentiment_score(score, scale)\<close>, branch by branch. The score is whatever
  value the caller passes (the formatter passes the decoded JSON value).
\<close>

definition scale_sentiment_score :: "collaborators \<Rightarrow> json \<Rightarrow> string \<Rightarrow> error + json" where
  "scale_sentiment_score env score scale =
    (if scale = ''binary'' then
       (case lt_num score 0 of
          Inl e \<Rightarrow> Inl e
        | Inr b \<Rightarrow> Inr (JStr (if b then ''negative'' else ''positive'')))
     else if scale = ''ternary'' then
       (case lt_num score (- (33 / 100)) of
          Inl e \<Rightarrow> Inl e
        | Inr b1 \<Rightarrow>
            if b1 then Inr (JStr ''negative'')
            else (case gt_num score (33 / 100) of
                    Inl e \<Rightarrow> Inl e
                  | Inr b2 \<Rightarrow>
                      if b2 then Inr (JStr ''positive'') else Inr (JStr ''neutral'')))
     else if scale = ''quinary'' then
       (case lt_num score (- (66 / 100)) of
          Inl e \<Rightarrow> Inl e
        | Inr b1 \<Rightarrow>
            if b1 then Inr (JStr ''highly negative'')
            else (case lt_num score (- (33 / 100)) of
                    Inl e \<Rightarrow> Inl e
                  | Inr b2 \<Rightarrow>
                      if b2 then Inr (JStr ''negative'')
                      else (case lt_num score (33 / 100) of
                              Inl e \<Rightarrow> Inl e
                            | Inr b3 \<Rightarrow>
                                if b3 then Inr (JStr ''neutral'')
                                else (case lt_num score (66 / 100) of
                                        Inl e \<Rightarrow> Inl e
                                      | Inr b4 \<Rightarrow>
                                          if b4 then Inr (JStr ''positive'')
                                          else Inr (JStr ''highly positive'')))))
     else if scale = ''rescale_zero_to_one'' then
       (case num_val score of
          None \<Rightarrow> Inl TypeError
        | Some s \<Rightarrow> Inr (JNum ((s + 1) / 2)))
     else
       (case py_float env score of
          Inl e \<Rightarrow> Inl e
        | Inr s \<Rightarrow> Inr (JNum s)))"

section \<open>Decoding the response column\<close>

text \<open>
  Modelled from the spec: \<^verbatim>\<open>safe_json_loads(str_to_check, error_handling)\<close> of
  \<^verbatim>\<open>plugin_io_utils\<close>, which is not part of the source at hand. It decodes the text with
  the JSON decoder; text that does not decode (a value that is not text included) is
  handled by the configured policy: raise and abort lets the decoder's error propagate,
  the two other policies substitute the empty object.
\<close>

definition safe_json_loads :: "collaborators \<Rightarrow> json \<Rightarrow> ErrorHandlingEnum \<Rightarrow> error + json" where
  "safe_json_loads env str_to_check error_handling =
    (let decoded = (case str_to_check of
                      JStr s \<Rightarrow> (case json_loads env s of
                                   Some v \<Rightarrow> Inr v
                                 | None \<Rightarrow> Inl JSONDecodeError)
                    | _ \<Rightarrow> Inl TypeError)
     in case decoded of
          Inr v \<Rightarrow> Inr v
        | Inl e \<Rightarrow> (if error_handling = FAIL then Inl e else Inr (JObj [])))"

section \<open>Client construction\<close>

text \<open>
  \<^verbatim>\<open>get_client(gcp_service_account_key)\<close>. The result records the constructor call
  that is made: \<open>LanguageServiceClient None\<close> is the call without credentials, which
  leaves credential resolution to the client library. Logging is not modelled.
\<close>

definition get_client :: "collaborators \<Rightarrow> string option \<Rightarrow> error + client" where
  "get_client env gcp_service_account_key =
    (case gcp_service_account_key of
       None \<Rightarrow> Inr (LanguageServiceClient None)
     | Some key \<Rightarrow>
         (case json_loads env key of
            None \<Rightarrow> Inl (ValueError ''GCP service account key is not valid JSON.'')
          | Some info \<Rightarrow>
              (case from_service_account_info env info of
                 Inl e \<Rightarrow> Inl e
               | Inr c \<Rightarrow> Inr (LanguageServiceClient (Some c)))))"

section \<open>Entity-recognition formatter\<close>

text \<open>
  Iterating over a value (\<^verbatim>\<open>for e in x\<close>, \<^verbatim>\<open>sorted(x)\<close>): the elements of a list,
  the keys of a dictionary, the characters of a string; a \<^verbatim>\<open>TypeError\<close> otherwise.
\<close>

fun py_iter :: "json \<Rightarrow> error + json list" where
  "py_iter (JArr xs) = Inr xs"
| "py_iter (JObj kv) = Inr (map (\<lambda>p. JStr (fst p)) kv)"
| "py_iter (JStr s) = Inr (map (\<lambda>c. JStr [c]) s)"
| "py_iter _ = Inl TypeError"

text \<open>
  The comprehension
  \<^verbatim>\<open>[e.get("name") for e in entities if e.get("type", '') == n]\<close>
  over the elements of \<^verbatim>\<open>entities\<close>: the condition is evaluated first, and a value
  equals the string \<open>n\<close> exactly when it is that string.
\<close>

fun names_of_type :: "json list \<Rightarrow> string \<Rightarrow> error + json list" where
  "names_of_type [] n = Inr []"
| "names_of_type (e # es) n =
    (case py_get e ''type'' (JStr '''') of
       Inl err \<Rightarrow> Inl err
     | Inr t \<Rightarrow>
         if t = JStr n then
           (case py_get e ''name'' JNull of
              Inl err \<Rightarrow> Inl err
            | Inr nm \<Rightarrow>
                (case names_of_type es n of
                   Inl err \<Rightarrow> Inl err
                 | Inr r \<Rightarrow> Inr (nm # r)))
         else names_of_type es n)"

text \<open>\<^verbatim>\<open>n.lower()\<close> on the ASCII letters; other characters are left as they are.\<close>

definition lower_char :: "char \<Rightarrow> char" where
  "lower_char c =
    (let k = (of_char c :: nat) in if 65 \<le> k \<and> k \<le> 90 then char_of (k + 32) else c)"

definition lower :: "string \<Rightarrow> string" where
  "lower s = map lower_char s"

text \<open>
  The formatters mutate the row in place, so an exception leaves the caller with the row
  as written so far. Each formatter therefore returns the row it leaves behind together
  with the exception raised, if any.

  The loop \<^verbatim>\<open>for n in available_entity_types\<close> of the multiple-columns branch.
\<close>

fun entity_type_loop ::
  "collaborators \<Rightarrow> string \<Rightarrow> json \<Rightarrow> row \<Rightarrow> string list \<Rightarrow> row \<times> error option" where
  "entity_type_loop env column_prefix entities r [] = (r, None)"
| "entity_type_loop env column_prefix entities r (n # ns) =
    (let entity_type_column =
           generate_unique env (''entity_type_'' @ lower n) (keys r) column_prefix
     in case py_iter entities of
          Inl err \<Rightarrow> (r, Some err)
        | Inr es \<Rightarrow>
            (case names_of_type es n of
               Inl err \<Rightarrow> (r, Some err)
             | Inr names \<Rightarrow>
                 (let r1 = AList.update entity_type_column (JArr names) r;
                      r2 = (if length names = 0
                            then AList.update entity_type_column (JStr '''') r1
                            else r1)
                  in entity_type_loop env column_prefix entities r2 ns)))"

definition format_named_entity_recognition ::
  "collaborators \<Rightarrow> row \<Rightarrow> string \<Rightarrow> OutputFormatEnum \<Rightarrow> string \<Rightarrow> ErrorHandlingEnum
     \<Rightarrow> row \<times> error option" where
  "format_named_entity_recognition env r response_column output_format column_prefix
       error_handling =
    (case map_of r response_column of
       None \<Rightarrow> (r, Some KeyError)
     | Some raw_response \<Rightarrow>
         (case safe_json_loads env raw_response error_handling of
            Inl err \<Rightarrow> (r, Some err)
          | Inr response \<Rightarrow>
              if output_format = SINGLE_COLUMN then
                (let entity_column = generate_unique env ''entities'' (keys r) column_prefix
                 in case py_get response ''entities'' (JStr '''') of
                      Inl err \<Rightarrow> (r, Some err)
                    | Inr v \<Rightarrow> (AList.update entity_column v r, None))
              else
                (case py_get response ''entities'' (JArr []) of
                   Inl err \<Rightarrow> (r, Some err)
                 | Inr entities \<Rightarrow>
                     entity_type_loop env column_prefix entities r
                       (entity_type_members env))))"

section \<open>Sentiment-analysis formatter\<close>

text \<open>
  The two \<^verbatim>\<open>if ... is not None\<close> blocks of \<^verbatim>\<open>format_sentiment_analysis\<close>, each
  taking the row and returning it as written.
\<close>

definition write_score ::
  "collaborators \<Rightarrow> string \<Rightarrow> string \<Rightarrow> string \<Rightarrow> json \<Rightarrow> row \<Rightarrow> row \<times> error option" where
  "write_score env sentiment_score_column sentiment_score_scaled_column sentiment_scale
       sentiment_score r =
    (if sentiment_score \<noteq> JNull then
       (case py_float env sentiment_score of
          Inl err \<Rightarrow> (r, Some err)
        | Inr f \<Rightarrow>
            (let r1 = AList.update sentiment_score_column (JNum f) r
             in case scale_sentiment_score env sentiment_score sentiment_scale of
                  Inl err \<Rightarrow> (r1, Some err)
                | Inr scaled \<Rightarrow>
                    (AList.update sentiment_score_scaled_column scaled r1, None)))
     else
       (AList.update sentiment_score_scaled_column JNull
          (AList.update sentiment_score_column JNull r), None))"

definition write_magnitude ::
  "collaborators \<Rightarrow> string \<Rightarrow> json \<Rightarrow> row \<Rightarrow> row \<times> error option" where
  "write_magnitude env sentiment_magnitude_column magnitude_score r =
    (if magnitude_score \<noteq> JNull then
       (case py_float env magnitude_score of
          Inl err \<Rightarrow> (r, Some err)
        | Inr f \<Rightarrow> (AList.update sentiment_magnitude_column (JNum f) r, None))
     else (AList.update sentiment_magnitude_column JNull r, None))"

definition format_sentiment_analysis ::
  "collaborators \<Rightarrow> row \<Rightarrow> string \<Rightarrow> string \<Rightarrow> string \<Rightarrow> ErrorHandlingEnum
     \<Rightarrow> row \<times> error option" where
  "format_sentiment_analysis env r response_column sentiment_scale column_prefix
       error_handling =
    (case map_of r response_column of
       None \<Rightarrow> (r, Some KeyError)
     | Some raw_response \<Rightarrow>
         (case safe_json_loads env raw_response error_handling of
            Inl err \<Rightarrow> (r, Some err)
          | Inr response \<Rightarrow>
              (let sentiment_score_column =
                     generate_unique env ''score'' (keys r) column_prefix;
                   sentiment_score_scaled_column =
                     generate_unique env ''score_scaled'' (keys r) column_prefix;
                   sentiment_magnitude_column =
                     generate_unique env ''magnitude'' (keys r) column_prefix
               in case py_get response ''documentSentiment'' (JObj []) of
                    Inl err \<Rightarrow> (r, Some err)
                  | Inr sentiment \<Rightarrow>
                      (case py_get sentiment ''score'' JNull of
                         Inl err \<Rightarrow> (r, Some err)
                       | Inr sentiment_score \<Rightarrow>
                           (case py_get sentiment ''magnitude'' JNull of
                              Inl err \<Rightarrow> (r, Some err)
                            | Inr magnitude_score \<Rightarrow>
                                (case write_score env sentiment_score_column
                                        sentiment_score_scaled_column sentiment_scale
                                        sentiment_score r of
                                   (r2, Some err) \<Rightarrow> (r2, Some err)
                                 | (r2, None) \<Rightarrow>
                                     write_magnitude env sentiment_magnitude_column
                                       magnitude_score r2))))))"

section \<open>Text-classification formatter\<close>

text \<open>
  Python's \<^verbatim>\<open>==\<close> on decoded values: numbers and booleans by value, strings and
  \<^verbatim>\<open>None\<close> by identity of value, lists elementwise, dictionaries as finite maps. It
  never raises.
\<close>

fun py_eq :: "json \<Rightarrow> json \<Rightarrow> bool"
  and py_eq_list :: "json list \<Rightarrow> json list \<Rightarrow> bool"
  and py_eq_items :: "(string \<times> json) list \<Rightarrow> (string \<times> json) list \<Rightarrow> bool" where
  "py_eq (JArr xs) b = (case b of JArr ys \<Rightarrow> py_eq_list xs ys | _ \<Rightarrow> False)"
| "py_eq (JObj kv) b =
     (case b of JObj kw \<Rightarrow> length kv = length kw \<and> py_eq_items kv kw | _ \<Rightarrow> False)"
| "py_eq (JStr s) b = (b = JStr s)"
| "py_eq JNull b = (b = JNull)"
| "py_eq (JNum r) b = (num_val b = Some r)"
| "py_eq (JBool c) b = (num_val b = Some (if c then 1 else 0))"
| "py_eq_list [] ys = (ys = [])"
| "py_eq_list (x # xs) ys =
     (case ys of [] \<Rightarrow> False | y # ys' \<Rightarrow> py_eq x y \<and> py_eq_list xs ys')"
| "py_eq_items [] kw = True"
| "py_eq_items (p # kv) kw =
     (case map_of kw (fst p) of
        None \<Rightarrow> False
      | Some w \<Rightarrow> py_eq (snd p) w \<and> py_eq_items kv kw)"

text \<open>Strings compare lexicographically by character code.\<close>

fun str_lt :: "string \<Rightarrow> string \<Rightarrow> bool" where
  "str_lt [] [] = False"
| "str_lt [] (y # ys) = True"
| "str_lt (x # xs) [] = False"
| "str_lt (x # xs) (y # ys) =
     (if x = y then str_lt xs ys else (of_char x :: nat) < of_char y)"

text \<open>
  Python's \<^verbatim>\<open>a < b\<close>: between two numbers, two strings or two lists (decided at the
  first pair of unequal elements, then by length); every other pair of operands,
  \<^verbatim>\<open>None\<close> and dictionaries on either side included, raises \<^verbatim>\<open>TypeError\<close>.
\<close>

fun py_lt :: "json \<Rightarrow> json \<Rightarrow> error + bool"
  and py_lt_list :: "json list \<Rightarrow> json list \<Rightarrow> error + bool" where
  "py_lt (JArr xs) b = (case b of JArr ys \<Rightarrow> py_lt_list xs ys | _ \<Rightarrow> Inl TypeError)"
| "py_lt (JStr s) b = (case b of JStr t \<Rightarrow> Inr (str_lt s t) | _ \<Rightarrow> Inl TypeError)"
| "py_lt (JNum r) b = (case num_val b of Some q \<Rightarrow> Inr (r < q) | None \<Rightarrow> Inl TypeError)"
| "py_lt (JBool c) b =
     (case num_val b of
        Some q \<Rightarrow> Inr ((if c then 1 else 0) < q)
      | None \<Rightarrow> Inl TypeError)"
| "py_lt JNull b = Inl TypeError"
| "py_lt (JObj kv) b = Inl TypeError"
| "py_lt_list [] ys = Inr (ys \<noteq> [])"
| "py_lt_list (x # xs) ys =
     (case ys of
        [] \<Rightarrow> Inr False
      | y # ys' \<Rightarrow> if py_eq x y then py_lt_list xs ys' else py_lt x y)"

text \<open>
  \<^verbatim>\<open>sorted(xs, key=..., reverse=True)\<close> on a list of (key, item) pairs. The builtin is
  a stable comparison sort that uses only \<^verbatim>\<open><\<close> on the keys and lets a
  \<^verbatim>\<open>TypeError\<close> of a comparison propagate; it is modelled by the stable insertion sort
  with the same two properties. An item is placed after the items of greater key and
  before the later items of equal or smaller key.
\<close>

fun insert_desc :: "json \<times> json \<Rightarrow> (json \<times> json) list \<Rightarrow> error + (json \<times> json) list" where
  "insert_desc x [] = Inr [x]"
| "insert_desc x (y # ys) =
    (case py_lt (fst x) (fst y) of
       Inl err \<Rightarrow> Inl err
     | Inr b \<Rightarrow>
         if b then (case insert_desc x ys of
                      Inl err \<Rightarrow> Inl err
                    | Inr zs \<Rightarrow> Inr (y # zs))
         else Inr (x # y # ys))"

fun sorted_desc :: "(json \<times> json) list \<Rightarrow> error + (json \<times> json) list" where
  "sorted_desc [] = Inr []"
| "sorted_desc (x # xs) =
    (case sorted_desc xs of
       Inl err \<Rightarrow> Inl err
     | Inr ys \<Rightarrow> insert_desc x ys)"

text \<open>
  The key function \<^verbatim>\<open>lambda x: x.get("confidence")\<close> is applied to every item before
  the first comparison.
\<close>

fun confidence_keys :: "json list \<Rightarrow> error + (json \<times> json) list" where
  "confidence_keys [] = Inr []"
| "confidence_keys (x # xs) =
    (case py_get x ''confidence'' JNull of
       Inl err \<Rightarrow> Inl err
     | Inr k \<Rightarrow>
         (case confidence_keys xs of
            Inl err \<Rightarrow> Inl err
          | Inr ks \<Rightarrow> Inr ((k, x) # ks)))"

definition sorted_by_confidence :: "json \<Rightarrow> error + json list" where
  "sorted_by_confidence v =
    (case py_iter v of
       Inl err \<Rightarrow> Inl err
     | Inr xs \<Rightarrow>
         (case confidence_keys xs of
            Inl err \<Rightarrow> Inl err
          | Inr ks \<Rightarrow>
              (case sorted_desc ks of
                 Inl err \<Rightarrow> Inl err
               | Inr ys \<Rightarrow> Inr (map snd ys))))"

text \<open>\<^verbatim>\<open>str(n)\<close> for a number of \<^verbatim>\<open>range(num_categories)\<close>: its decimal digits.\<close>

fun str_nat :: "nat \<Rightarrow> string" where
  "str_nat n =
    (if n < 10 then [char_of (48 + n)]
     else str_nat (n div 10) @ [char_of (48 + n mod 10)])"

text \<open>The loop \<^verbatim>\<open>for n in range(num_categories)\<close>.\<close>

fun category_loop ::
  "collaborators \<Rightarrow> string \<Rightarrow> json list \<Rightarrow> row \<Rightarrow> nat list \<Rightarrow> row \<times> error option" where
  "category_loop env column_prefix categories r [] = (r, None)"
| "category_loop env column_prefix categories r (n # ns) =
    (let category_column =
           generate_unique env (''category_'' @ str_nat n) (keys r) column_prefix;
         confidence_column =
           generate_unique env (''category_'' @ str_nat n @ ''_confidence'') (keys r)
             column_prefix
     in if length categories > n then
          (case py_get (categories ! n) ''name'' (JStr '''') of
             Inl err \<Rightarrow> (r, Some err)
           | Inr nm \<Rightarrow>
               (let r1 = AList.update category_column nm r
                in case py_get (categories ! n) ''confidence'' JNull of
                     Inl err \<Rightarrow> (r1, Some err)
                   | Inr c \<Rightarrow>
                       category_loop env column_prefix categories
                         (AList.update confidence_column c r1) ns))
        else
          category_loop env column_prefix categories
            (AList.update confidence_column JNull
               (AList.update category_column (JStr '''') r)) ns)"

definition format_text_classification ::
  "collaborators \<Rightarrow> row \<Rightarrow> string \<Rightarrow> OutputFormatEnum \<Rightarrow> int \<Rightarrow> string \<Rightarrow> ErrorHandlingEnum
     \<Rightarrow> row \<times> error option" where
  "format_text_classification env r response_column output_format num_categories
       column_prefix error_handling =
    (case map_of r response_column of
       None \<Rightarrow> (r, Some KeyError)
     | Some raw_response \<Rightarrow>
         (case safe_json_loads env raw_response error_handling of
            Inl err \<Rightarrow> (r, Some err)
          | Inr response \<Rightarrow>
              if output_format = SINGLE_COLUMN then
                (let classification_column =
                       generate_unique env ''categories'' (keys r) column_prefix
                 in case py_get response ''categories'' (JStr '''') of
                      Inl err \<Rightarrow> (r, Some err)
                    | Inr v \<Rightarrow> (AList.update classification_column v r, None))
              else
                (case py_get response ''categories'' (JArr []) of
                   Inl err \<Rightarrow> (r, Some err)
                 | Inr v \<Rightarrow>
                     (case sorted_by_confidence v of
                        Inl err \<Rightarrow> (r, Some err)
                      | Inr categories \<Rightarrow>
                          category_loop env column_prefix categories r
                            [0 ..< nat num_categories]))))"

text \<open>The default arguments of the three formatters.\<close>

definition default_sentiment_scale :: string where
  "default_sentiment_scale = ''ternary''"

definition default_num_categories :: int where
  "default_num_categories = 3"

section \<open>A concrete set of collaborators\<close>

text \<open>The examples of this development are evaluated with the collaborators below.\<close>

text \<open>
  Modelled from the spec: \<^verbatim>\<open>generate_unique\<close> of \<^verbatim>\<open>plugin_io_utils\<close>, which is not
  part of the source at hand. The new column name is the prefix followed by the semantic
  suffix, deduplicated against the existing names: the first of \<open>prefix_name\<close>,
  \<open>prefix_name_1\<close>, \<open>prefix_name_2\<close>, ... that is not an existing name.
\<close>

definition unique_candidate :: "string \<Rightarrow> nat \<Rightarrow> string" where
  "unique_candidate base i = (if i = 0 then base else base @ ''_'' @ str_nat i)"

definition sample_generate_unique :: "string \<Rightarrow> string list \<Rightarrow> string \<Rightarrow> string" where
  "sample_generate_unique name existing_names prefix =
    (let base = prefix @ ''_'' @ name
     in case find (\<lambda>c. c \<notin> set existing_names)
               (map (unique_candidate base) [0 ..< Suc (length existing_names)]) of
          Some c \<Rightarrow> c
        | None \<Rightarrow> base)"

text \<open>
  The decoder of the examples is \<^verbatim>\<open>json.loads\<close> restricted to the documents used
  below; it is applied to these documents and to text that is not JSON only.
\<close>

definition doc_person :: string where
  \<open>doc_person = ''{"entities":[{"name":"A","type":"PERSON"}]}''\<close>

definition doc_two_categories :: string where
  \<open>doc_two_categories =
     ''{"categories":[{"name":"/News","confidence":0.5},{"name":"/Arts","confidence":0.9}]}''\<close>

definition doc_missing_confidence :: string where
  \<open>doc_missing_confidence =
     ''{"categories":[{"name":"/News","confidence":0.5},{"name":"/Arts"}]}''\<close>

definition doc_sentiment :: string where
  \<open>doc_sentiment = ''{"documentSentiment":{"score":0.5,"magnitude":2}}''\<close>

definition doc_magnitude_only :: string where
  \<open>doc_magnitude_only = ''{"documentSentiment":{"magnitude":2}}''\<close>

definition doc_magnitude_list :: string where
  \<open>doc_magnitude_list = ''{"documentSentiment":{"magnitude":[]}}''\<close>

definition sample_documents :: "(string \<times> json) list" where
  "sample_documents =
    [(doc_person,
        JObj [(''entities'', JArr [JObj [(''name'', JStr ''A''), (''type'', JStr ''PERSON'')]])]),
     (doc_two_categories,
        JObj [(''categories'',
               JArr [JObj [(''name'', JStr ''/News''), (''confidence'', JNum (1 / 2))],
                     JObj [(''name'', JStr ''/Arts''), (''confidence'', JNum (9 / 10))]])]),
     (doc_missing_confidence,
        JObj [(''categories'',
               JArr [JObj [(''name'', JStr ''/News''), (''confidence'', JNum (1 / 2))],
                     JObj [(''name'', JStr ''/Arts'')]])]),
     (doc_sentiment,
        JObj [(''documentSentiment'',
               JObj [(''score'', JNum (1 / 2)), (''magnitude'', JNum 2)])]),
     (doc_magnitude_only,
        JObj [(''documentSentiment'', JObj [(''magnitude'', JNum 2)])]),
     (doc_magnitude_list,
        JObj [(''documentSentiment'', JObj [(''magnitude'', JArr [])])])]"

definition sample_loads :: "string \<Rightarrow> json option" where
  "sample_loads s = map_of sample_documents s"

text \<open>
  The member names of \<^verbatim>\<open>language.enums.Entity.Type\<close> in the examples, and
  \<^verbatim>\<open>float\<close> on the few strings listed (no other string is passed to it).
\<close>

definition sample_entity_types :: "string list" where
  "sample_entity_types =
    [''UNKNOWN'', ''PERSON'', ''LOCATION'', ''ORGANIZATION'', ''EVENT'', ''WORK_OF_ART'',
     ''CONSUMER_GOOD'', ''OTHER'', ''PHONE_NUMBER'', ''ADDRESS'', ''DATE'', ''NUMBER'',
     ''PRICE'']"

definition sample_float_of_str :: "string \<Rightarrow> rat option" where
  "sample_float_of_str s = map_of [(''0'', 0), (''1'', 1), (''0.5'', 1 / 2), (''-1'', - 1)] s"

definition sample_env :: collaborators where
  "sample_env =
    \<lparr> generate_unique = sample_generate_unique,
      json_loads = sample_loads,
      entity_type_members = sample_entity_types,
      float_of_str = sample_float_of_str,
      from_service_account_info = (\<lambda>info. Inr (Credentials info)) \<rparr>"

text \<open>The rows of the examples.\<close>

definition row_person :: row where
  "row_person = [(''text'', JStr ''A spoke''), (''response'', JStr doc_person)]"

definition row_two_categories :: row where
  "row_two_categories = [(''text'', JStr ''news''), (''response'', JStr doc_two_categories)]"

definition row_missing_confidence :: row where
  "row_missing_confidence =
    [(''text'', JStr ''news''), (''response'', JStr doc_missing_confidence)]"

definition row_sentiment :: row where
  "row_sentiment =
    [(''text'', JStr ''fine''), (''api_score'', JNum 7), (''response'', JStr doc_sentiment)]"

definition row_magnitude_only :: row where
  "row_magnitude_only = [(''text'', JStr ''fine''), (''response'', JStr doc_magnitude_only)]"


definition row_not_json :: row where
  "row_not_json = [(''text'', JStr ''fine''), (''response'', JStr ''{not json'')]"

section \<open>Vocabulary of the properties\<close>

text \<open>
  The contract of the name generator: the name it returns is not among the existing
  names it was given.
\<close>

definition generates_fresh :: "collaborators \<Rightarrow> string \<Rightarrow> bool" where
  "generates_fresh env column_prefix \<longleftrightarrow>
     (\<forall>name existing_names.
        generate_unique env name existing_names column_prefix \<notin> set existing_names)"

text \<open>
  The name and the confidence column of one category are generated against the same
  existing names; they are two columns when the generator keeps the two suffixes apart.
\<close>

definition category_columns_differ :: "collaborators \<Rightarrow> string \<Rightarrow> bool" where
  "category_columns_differ env column_prefix \<longleftrightarrow>
     (\<forall>n existing_names.
        generate_unique env (''category_'' @ str_nat n) existing_names column_prefix
          \<noteq> generate_unique env (''category_'' @ str_nat n @ ''_confidence'') existing_names
               column_prefix)"

text \<open>
  A row \<open>r'\<close> only adds to a row \<open>r\<close>: it is \<open>r\<close> followed by entries under keys
  that \<open>r\<close> does not have, so every key of \<open>r\<close> is still there with its value.
\<close>

definition only_adds :: "row \<Rightarrow> row \<Rightarrow> bool" where
  "only_adds r r' \<longleftrightarrow>
     (\<exists>added. r' = r @ added \<and> set (keys added) \<inter> set (keys r) = {})
     \<and> (\<forall>k \<in> set (keys r). map_of r' k = map_of r k)"

definition is_object :: "json \<Rightarrow> bool" where
  "is_object v = (case v of JObj kv \<Rightarrow> True | _ \<Rightarrow> False)"

text \<open>The value of field \<open>k\<close> of an object, \<open>d\<close> when the object has no such field.\<close>

definition field_or :: "json \<Rightarrow> string \<Rightarrow> json \<Rightarrow> json" where
  "field_or e k d =
    (case e of
       JObj kv \<Rightarrow> (case map_of kv k of Some v \<Rightarrow> v | None \<Rightarrow> d)
     | _ \<Rightarrow> d)"

text \<open>
  What the specification puts in the column of entity type \<open>n\<close>: the names, in input
  order, of the entities whose type is \<open>n\<close>, and the empty string when there is none.
\<close>

definition entity_type_is :: "string \<Rightarrow> json \<Rightarrow> bool" where
  "entity_type_is n e \<longleftrightarrow> field_or e ''type'' JNull = JStr n"

definition entity_name :: "json \<Rightarrow> json" where
  "entity_name e = field_or e ''name'' JNull"

definition entity_column_value :: "json list \<Rightarrow> string \<Rightarrow> json" where
  "entity_column_value es n =
    (let names = map entity_name (filter (entity_type_is n) es)
     in if names = [] then JStr '''' else JArr names)"

text \<open>
  What the specification says of the categories: they are taken in descending order of
  their numeric confidence, categories of equal confidence in input order. This is the
  stable sort of the library on the negated confidence.
\<close>

definition confidence_num :: "json \<Rightarrow> rat option" where
  "confidence_num c =
    (case c of
       JObj kv \<Rightarrow> (case map_of kv ''confidence'' of Some v \<Rightarrow> num_val v | None \<Rightarrow> None)
     | _ \<Rightarrow> None)"

definition confidence_value :: "json \<Rightarrow> rat" where
  "confidence_value c = (case confidence_num c of Some q \<Rightarrow> q | None \<Rightarrow> 0)"

definition by_confidence_descending :: "json list \<Rightarrow> json list" where
  "by_confidence_descending cats = sort_key (\<lambda>c. - confidence_value c) cats"

text \<open>
  The pair (name, confidence) of slot \<open>n\<close>: taken from the \<open>n\<close>-th category when there
  is one, the sentinels \<open>('', None)\<close> otherwise; and the two row entries of the slot
  under a pair of column names.
\<close>

definition category_slot :: "json list \<Rightarrow> nat \<Rightarrow> json \<times> json" where
  "category_slot cats n =
    (if n < length cats
     then (field_or (cats ! n) ''name'' (JStr ''''), field_or (cats ! n) ''confidence'' JNull)
     else (JStr '''', JNull))"

definition slot_entries :: "json list \<Rightarrow> nat \<Rightarrow> string \<times> string \<Rightarrow> (string \<times> json) list" where
  "slot_entries cats n cols =
    [(fst cols, fst (category_slot cats n)), (snd cols, snd (category_slot cats n))]"

definition column_names :: "(string \<times> string) list \<Rightarrow> string list" where
  "column_names cols = concat (map (\<lambda>p. [fst p, snd p]) cols)"

text \<open>An item of the list to sort, paired with its sort key.\<close>

definition tagged :: "json \<Rightarrow> json \<times> json" where
  "tagged c = (field_or c ''confidence'' JNull, c)"

declare str_nat.simps [simp del]

section \<open>Sentiment scaling: the table of modes\<close>





text \<open>
  Claim C7. For a score in the range from -1 to 1, the binary, ternary and quinary modes
  return one of their two, three and five labels, and rescale_zero_to_one returns a
  number between 0 and 1.
\<close>

theorem scale_sentiment_score_range:
  assumes "num_val score = Some s" and "- 1 \<le> s" and "s \<le> 1"
  shows "(\<exists>l \<in> {''negative'', ''positive''}.
            scale_sentiment_score env score ''binary'' = Inr (JStr l))
       \<and> (\<exists>l \<in> {''negative'', ''neutral'', ''positive''}.
            scale_sentiment_score env score ''ternary'' = Inr (JStr l))
       \<and> (\<exists>l \<in> {''highly negative'', ''negative'', ''neutral'', ''positive'',
                  ''highly positive''}.
            scale_sentiment_score env score ''quinary'' = Inr (JStr l))
       \<and> (\<exists>q. scale_sentiment_score env score ''rescale_zero_to_one'' = Inr (JNum q)
              \<and> 0 \<le> q \<and> q \<le> 1)"
proof -
  have b: "\<exists>l \<in> {''negative'', ''positive''}.
             scale_sentiment_score env score ''binary'' = Inr (JStr l)"
    using assms(1) by (simp add: scale_sentiment_score_def lt_num_def)
  have t: "\<exists>l \<in> {''negative'', ''neutral'', ''positive''}.
             scale_sentiment_score env score ''ternary'' = Inr (JStr l)"
    using assms(1) by (simp add: scale_sentiment_score_def lt_num_def gt_num_def)
  have q: "\<exists>l \<in> {''highly negative'', ''negative'', ''neutral'', ''positive'',
                  ''highly positive''}.
             scale_sentiment_score env score ''quinary'' = Inr (JStr l)"
    using assms(1) by (simp add: scale_sentiment_score_def lt_num_def)
  have e: "scale_sentiment_score env score ''rescale_zero_to_one'' = Inr (JNum ((s + 1) / 2))"
    using assms(1) by (simp add: scale_sentiment_score_def)
  have "0 \<le> (s + 1) / 2" and "(s + 1) / 2 \<le> 1"
    using assms(2,3) by simp_all
  with e have r: "\<exists>q. scale_sentiment_score env score ''rescale_zero_to_one'' = Inr (JNum q)
              \<and> 0 \<le> q \<and> q \<le> 1"
    by blast
  from b t q r show ?thesis by blast
qed

theorem scale_sentiment_score_range_witness:
  "num_val (JNum (1 / 2)) = Some (1 / 2) \<and> - 1 \<le> (1 / 2 :: rat) \<and> (1 / 2 :: rat) \<le> 1
   \<and> scale_sentiment_score sample_env (JNum (1 / 2)) ''binary'' = Inr (JStr ''positive'')
   \<and> scale_sentiment_score sample_env (JNum (1 / 2)) ''ternary'' = Inr (JStr ''positive'')
   \<and> scale_sentiment_score sample_env (JNum (1 / 2)) ''quinary'' = Inr (JStr ''positive'')
   \<and> scale_sentiment_score sample_env (JNum (1 / 2)) ''rescale_zero_to_one'' =
        Inr (JNum (3 / 4))"
  using scale_sentiment_score_range [of "JNum (1 / 2)" "1 / 2" sample_env]
  by (simp add: scale_sentiment_score_def lt_num_def gt_num_def)

section \<open>Client construction: invalid credentials\<close>

text \<open>
  Claim C6. When the supplied service account key does not decode as JSON,
  \<^verbatim>\<open>get_client\<close> raises the \<^verbatim>\<open>ValueError\<close> with the message "GCP service account key is
  not valid JSON." and not the decoder's own exception; without a key it constructs the
  client without credentials, which leaves their resolution to the client library.
\<close>

theorem get_client_invalid_json:
  "(json_loads env key = None \<longrightarrow>
      get_client env (Some key) = Inl (ValueError ''GCP service account key is not valid JSON.'')
      \<and> get_client env (Some key) \<noteq> Inl JSONDecodeError)
   \<and> get_client env None = Inr (LanguageServiceClient None)"
  by (simp add: get_client_def)

theorem get_client_invalid_json_witness:
  "json_loads sample_env ''{not json'' = None
   \<and> get_client sample_env (Some ''{not json'') =
        Inl (ValueError ''GCP service account key is not valid JSON.'')
   \<and> get_client sample_env None = Inr (LanguageServiceClient None)"
  using get_client_invalid_json [of sample_env "''{not json''"]
  by (simp add: sample_env_def sample_loads_def sample_documents_def doc_person_def
        doc_two_categories_def doc_missing_confidence_def doc_sentiment_def
        doc_magnitude_only_def doc_magnitude_list_def)
section \<open>The example collaborators honour the generator's contract\<close>

text \<open>Decimal numerals are non-empty, made of digits, and determine their number.\<close>

lemma str_nat_not_Nil: "str_nat n \<noteq> []"
  by (subst str_nat.simps) simp

lemma digit_inj:
  "a < 10 \<Longrightarrow> b < 10 \<Longrightarrow> (char_of (48 + a) :: char) = char_of (48 + b) \<Longrightarrow> a = (b::nat)"
  by (simp add: char_of_eq_iff take_bit_eq_mod)

lemma str_nat_inj: "str_nat m = str_nat n \<Longrightarrow> m = n"
proof (induction m arbitrary: n rule: str_nat.induct)
  case (1 m)
  show ?case
  proof (cases "m < 10")
    case True
    then have m: "str_nat m = [char_of (48 + m)]" by (subst str_nat.simps) simp
    show ?thesis
    proof (cases "n < 10")
      case True
      then have "str_nat n = [char_of (48 + n)]" by (subst str_nat.simps) simp
      with m "1.prems" \<open>m < 10\<close> True show ?thesis by (auto dest: digit_inj)
    next
      case False
      then have "str_nat n = str_nat (n div 10) @ [char_of (48 + n mod 10)]"
        by (subst str_nat.simps) simp
      with m "1.prems" str_nat_not_Nil [of "n div 10"] show ?thesis by simp
    qed
  next
    case False
    then have m: "str_nat m = str_nat (m div 10) @ [char_of (48 + m mod 10)]"
      by (subst str_nat.simps) simp
    show ?thesis
    proof (cases "n < 10")
      case True
      then have "str_nat n = [char_of (48 + n)]" by (subst str_nat.simps) simp
      with m "1.prems" str_nat_not_Nil [of "m div 10"] show ?thesis by simp
    next
      case nge: False
      then have "str_nat n = str_nat (n div 10) @ [char_of (48 + n mod 10)]"
        by (subst str_nat.simps) simp
      with m "1.prems" have a: "str_nat (m div 10) = str_nat (n div 10)"
        and b: "(char_of (48 + m mod 10) :: char) = char_of (48 + n mod 10)" by simp_all
      from "1.IH" [OF False a] have "m div 10 = n div 10" .
      moreover from b have "m mod 10 = n mod 10" by (auto dest!: digit_inj [rotated 2])
      ultimately show ?thesis by (metis div_mult_mod_eq)
    qed
  qed
qed

lemma unique_candidate_inj: "inj (unique_candidate base)"
proof (rule injI)
  fix i j
  assume "unique_candidate base i = unique_candidate base j"
  then show "i = j"
    by (auto simp: unique_candidate_def split: if_splits dest: str_nat_inj)
qed

lemma some_candidate_unused:
  "\<exists>c \<in> set (map (unique_candidate base) [0 ..< Suc (length ks)]). c \<notin> set ks"
proof (rule ccontr)
  assume "\<not> ?thesis"
  then have "\<forall>i < Suc (length ks). unique_candidate base i \<in> set ks"
    by (simp del: upt_Suc)
  then have sub: "unique_candidate base ` {0 ..< Suc (length ks)} \<subseteq> set ks" by auto
  have "card (unique_candidate base ` {0 ..< Suc (length ks)}) = Suc (length ks)"
    using unique_candidate_inj [of base] by (simp add: card_image inj_on_def inj_def)
  moreover have "card (unique_candidate base ` {0 ..< Suc (length ks)}) \<le> card (set ks)"
    using sub by (simp add: card_mono)
  moreover have "card (set ks) \<le> length ks" by (rule card_length)
  ultimately show False by simp
qed

lemma sample_generate_unique_fresh: "sample_generate_unique name ks prefix \<notin> set ks"
proof -
  let ?cs = "map (unique_candidate (prefix @ ''_'' @ name)) [0 ..< Suc (length ks)]"
  from some_candidate_unused [of "prefix @ ''_'' @ name" ks]
  obtain c where "find (\<lambda>c. c \<notin> set ks) ?cs = Some c"
    by (cases "find (\<lambda>c. c \<notin> set ks) ?cs") (auto simp: find_None_iff)
  moreover from this have "c \<notin> set ks" by (auto simp: find_Some_iff)
  ultimately show ?thesis by (simp add: sample_generate_unique_def Let_def)
qed

lemma sample_env_generates_fresh: "generates_fresh sample_env column_prefix"
  by (simp add: generates_fresh_def sample_env_def sample_generate_unique_fresh)

section \<open>The formatters only add keys\<close>

lemma update_fresh: "k \<notin> set (keys r) \<Longrightarrow> AList.update k v r = r @ [(k, v)]"
  by (induction r) (auto simp: keys_def)

lemma update_append_right:
  "k \<notin> set (keys r) \<Longrightarrow> AList.update k v (r @ a) = r @ AList.update k v a"
  by (induction r) (auto simp: keys_def)

lemma keys_update: "set (keys (AList.update k v r)) = insert k (set (keys r))"
  using dom_update [of k v r] by (simp add: keys_def)

lemma only_adds_refl: "only_adds r r"
  by (simp add: only_adds_def keys_def)

lemma only_adds_append:
  assumes "set (keys added) \<inter> set (keys r) = {}"
  shows "only_adds r (r @ added)"
proof -
  have "map_of (r @ added) k = map_of r k" if "k \<in> set (keys r)" for k
  proof -
    from that obtain v where "map_of r k = Some v"
      by (auto simp: keys_def weak_map_of_SomeI dest!: weak_map_of_SomeI) 
    then show ?thesis by (simp add: map_add_def)
  qed
  with assms show ?thesis unfolding only_adds_def by blast
qed

lemma only_adds_update:
  assumes "only_adds r0 r" and "k \<notin> set (keys r0)"
  shows "only_adds r0 (AList.update k v r)"
proof -
  from assms(1) obtain added where r: "r = r0 @ added"
    and d: "set (keys added) \<inter> set (keys r0) = {}"
    unfolding only_adds_def by blast
  have "AList.update k v r = r0 @ AList.update k v added"
    using r assms(2) by (simp add: update_append_right)
  moreover have "set (keys (AList.update k v added)) \<inter> set (keys r0) = {}"
    using d assms(2) by (simp add: keys_update)
  ultimately show ?thesis by (simp add: only_adds_append)
qed

lemma only_adds_keys: "only_adds r0 r \<Longrightarrow> set (keys r0) \<subseteq> set (keys r)"
  unfolding only_adds_def by (auto simp: keys_def)

lemma fresh_for_original:
  assumes "generates_fresh env column_prefix" and "only_adds r0 r"
  shows "generate_unique env name (keys r) column_prefix \<notin> set (keys r0)"
  using assms only_adds_keys [OF assms(2)] unfolding generates_fresh_def by blast

lemma entity_type_loop_only_adds:
  assumes "generates_fresh env column_prefix" and "only_adds r0 r"
  shows "only_adds r0 (fst (entity_type_loop env column_prefix entities r ns))"
  using assms(2)
proof (induction ns arbitrary: r)
  case Nil
  then show ?case by simp
next
  case (Cons n ns)
  let ?c = "generate_unique env (''entity_type_'' @ lower n) (keys r) column_prefix"
  have c: "?c \<notin> set (keys r0)"
    using fresh_for_original [OF assms(1) Cons.prems] .
  show ?case
  proof (cases "py_iter entities")
    case (Inl err)
    with Cons.prems show ?thesis by simp
  next
    case (Inr es)
    show ?thesis
    proof (cases "names_of_type es n")
      case (Inl err)
      with Inr Cons.prems show ?thesis by simp
    next
      case names: (Inr names)
      have "only_adds r0 (AList.update ?c (JArr names) r)"
        using Cons.prems c by (rule only_adds_update)
      moreover from this have "only_adds r0 (AList.update ?c (JStr []) (AList.update ?c (JArr names) r))"
        using c by (rule only_adds_update)
      ultimately show ?thesis
        using Inr names by (simp add: Cons.IH Let_def)
    qed
  qed
qed

lemma category_loop_only_adds:
  assumes "generates_fresh env column_prefix" and "only_adds r0 r"
  shows "only_adds r0 (fst (category_loop env column_prefix categories r ns))"
  using assms(2)
proof (induction ns arbitrary: r)
  case Nil
  then show ?case by simp
next
  case (Cons n ns)
  let ?cc = "generate_unique env (''category_'' @ str_nat n) (keys r) column_prefix"
  let ?cf = "generate_unique env (''category_'' @ str_nat n @ ''_confidence'') (keys r)
               column_prefix"
  have cc: "?cc \<notin> set (keys r0)" and cf: "?cf \<notin> set (keys r0)"
    using fresh_for_original [OF assms(1) Cons.prems] by blast+
  have step: "only_adds r0 (AList.update ?cf w (AList.update ?cc v r))" for v w
    using Cons.prems cc cf by (blast intro: only_adds_update)
  have one: "only_adds r0 (AList.update ?cc v r)" for v
    using Cons.prems cc by (rule only_adds_update)
  show ?case
  proof (cases "n < length categories")
    case False
    then show ?thesis using step by (simp add: Cons.IH Let_def)
  next
    case True
    show ?thesis
    proof (cases "py_get (categories ! n) ''name'' (JStr [])")
      case (Inl err)
      with True Cons.prems show ?thesis by (simp add: Let_def)
    next
      case nm: (Inr nm)
      show ?thesis
      proof (cases "py_get (categories ! n) ''confidence'' JNull")
        case (Inl err)
        with True nm one show ?thesis by (simp add: Let_def)
      next
        case (Inr c)
        with True nm step show ?thesis by (simp add: Cons.IH Let_def)
      qed
    qed
  qed
qed

lemma write_score_only_adds:
  assumes "only_adds r0 r" and "c1 \<notin> set (keys r0)" and "c2 \<notin> set (keys r0)"
  shows "only_adds r0 (fst (write_score env c1 c2 scale score r))"
  using assms by (auto simp: write_score_def Let_def split: sum.splits intro: only_adds_update)

lemma write_magnitude_only_adds:
  assumes "only_adds r0 r" and "c3 \<notin> set (keys r0)"
  shows "only_adds r0 (fst (write_magnitude env c3 m r))"
  using assms by (auto simp: write_magnitude_def split: sum.splits intro: only_adds_update)

lemma format_named_entity_recognition_only_adds:
  assumes "generates_fresh env column_prefix"
  shows "only_adds r (fst (format_named_entity_recognition env r response_column
           output_format column_prefix error_handling))"
proof -
  have c: "generate_unique env name (keys r) column_prefix \<notin> set (keys r)" for name
    using assms by (simp add: generates_fresh_def)
  show ?thesis
    using entity_type_loop_only_adds [OF assms only_adds_refl]
      only_adds_update [OF only_adds_refl c]
    by (auto simp: format_named_entity_recognition_def only_adds_refl Let_def
          split: option.splits sum.splits)
qed

lemma format_text_classification_only_adds:
  assumes "generates_fresh env column_prefix"
  shows "only_adds r (fst (format_text_classification env r response_column
           output_format num_categories column_prefix error_handling))"
proof -
  have c: "generate_unique env name (keys r) column_prefix \<notin> set (keys r)" for name
    using assms by (simp add: generates_fresh_def)
  show ?thesis
    using category_loop_only_adds [OF assms only_adds_refl]
      only_adds_update [OF only_adds_refl c]
    by (auto simp: format_text_classification_def only_adds_refl Let_def
          split: option.splits sum.splits)
qed

lemma format_sentiment_analysis_only_adds:
  assumes "generates_fresh env column_prefix"
  shows "only_adds r (fst (format_sentiment_analysis env r response_column
           sentiment_scale column_prefix error_handling))"
proof -
  have c: "generate_unique env name (keys r) column_prefix \<notin> set (keys r)" for name
    using assms by (simp add: generates_fresh_def)
  have s: "only_adds r (fst (write_score env
              (generate_unique env ''score'' (keys r) column_prefix)
              (generate_unique env ''score_scaled'' (keys r) column_prefix)
              sentiment_scale score r))" for score
    using only_adds_refl c c by (rule write_score_only_adds)
  have m: "only_adds r (fst (write_magnitude env
              (generate_unique env ''magnitude'' (keys r) column_prefix) mg r2))"
    if "only_adds r r2" for r2 mg
    using that c by (rule write_magnitude_only_adds)
  have w: "only_adds r (fst (case write_score env
              (generate_unique env ''score'' (keys r) column_prefix)
              (generate_unique env ''score_scaled'' (keys r) column_prefix)
              sentiment_scale score r of
            (r2, Some err) \<Rightarrow> (r2, Some err)
          | (r2, None) \<Rightarrow>
              write_magnitude env (generate_unique env ''magnitude'' (keys r) column_prefix)
                mg r2))" for score mg
  proof (cases "write_score env
              (generate_unique env ''score'' (keys r) column_prefix)
              (generate_unique env ''score_scaled'' (keys r) column_prefix)
              sentiment_scale score r")
    case (Pair r2 e)
    with s [of score] have r2: "only_adds r r2" by simp
    show ?thesis
    proof (cases e)
      case None
      with Pair m [OF r2, of mg] show ?thesis by simp
    next
      case (Some err)
      with Pair r2 show ?thesis by simp
    qed
  qed
  show ?thesis
    unfolding format_sentiment_analysis_def Let_def
    using w by (simp add: only_adds_refl split: option.splits sum.splits)
qed

text \<open>
  Claim C8. Provided the name generator returns a name that is not among the existing
  names, each of the three formatters only adds to the row, whatever the input and
  whether or not it raises: the row it leaves is the input row followed by entries under
  keys the input row does not have. So every key of the input row is still present with
  its original value, every key written is new, and no key is deleted.
\<close>

theorem formatters_only_add_keys:
  assumes "generates_fresh env column_prefix"
  shows "only_adds r (fst (format_named_entity_recognition env r response_column
           output_format column_prefix error_handling))
       \<and> only_adds r (fst (format_sentiment_analysis env r response_column
           sentiment_scale column_prefix error_handling))
       \<and> only_adds r (fst (format_text_classification env r response_column
           output_format num_categories column_prefix error_handling))"
  using format_named_entity_recognition_only_adds [OF assms]
    format_sentiment_analysis_only_adds [OF assms]
    format_text_classification_only_adds [OF assms]
  by blast

text \<open>
  An example in which the row already has a column \<open>api_score\<close>: the score is written
  under \<open>api_score_1\<close> and the existing column keeps its value.
\<close>

theorem formatters_only_add_keys_witness:
  "generates_fresh sample_env ''api''
   \<and> only_adds row_sentiment
        (fst (format_named_entity_recognition sample_env row_sentiment ''response''
                MULTIPLE_COLUMNS ''api'' LOG))
   \<and> only_adds row_sentiment
        (fst (format_sentiment_analysis sample_env row_sentiment ''response'' ''ternary''
                ''api'' LOG))
   \<and> only_adds row_sentiment
        (fst (format_text_classification sample_env row_sentiment ''response''
                MULTIPLE_COLUMNS 3 ''api'' LOG))
   \<and> format_sentiment_analysis sample_env row_sentiment ''response'' ''ternary'' ''api'' LOG =
        (row_sentiment @ [(''api_score_1'', JNum (1 / 2)),
                          (''api_score_scaled'', JStr ''positive''),
                          (''api_magnitude'', JNum 2)], None)"
proof -
  have ev: "format_sentiment_analysis sample_env row_sentiment ''response'' ''ternary''
              ''api'' LOG =
        (row_sentiment @ [(''api_score_1'', JNum (1 / 2)),
                          (''api_score_scaled'', JStr ''positive''),
                          (''api_magnitude'', JNum 2)], None)"
    by code_simp
  show ?thesis
    using formatters_only_add_keys [OF sample_env_generates_fresh,
        where column_prefix = "''api''" and r = row_sentiment
          and response_column = "''response''" and output_format = MULTIPLE_COLUMNS
          and error_handling = LOG and sentiment_scale = "''ternary''"
          and num_categories = 3]
      sample_env_generates_fresh [of "''api''"] ev
    by simp
qed


section \<open>Entity recognition: one column per entity type\<close>

lemma py_get_object: "is_object e \<Longrightarrow> py_get e k d = Inr (field_or e k d)"
  by (cases e) (simp_all add: is_object_def field_or_def)

lemma entity_type_is_JObj:
  "entity_type_is n (JObj kv) \<longleftrightarrow> map_of kv ''type'' = Some (JStr n)"
  by (simp add: entity_type_is_def field_or_def split: option.splits)

lemma entity_name_JObj:
  "entity_name (JObj kv) = (case map_of kv ''name'' of Some v \<Rightarrow> v | None \<Rightarrow> JNull)"
  by (simp add: entity_name_def field_or_def)

lemma names_of_type_objects:
  assumes "\<forall>e \<in> set es. is_object e" and "n \<noteq> ''''"
  shows "names_of_type es n = Inr (map entity_name (filter (entity_type_is n) es))"
  using assms(1)
proof (induction es)
  case Nil
  then show ?case by simp
next
  case (Cons e es)
  then obtain kv where e: "e = JObj kv" by (cases e) (auto simp: is_object_def)
  from Cons have ih: "names_of_type es n = Inr (map entity_name (filter (entity_type_is n) es))"
    by simp
  show ?case
    using assms(2)
    by (auto simp: e ih entity_type_is_JObj entity_name_JObj split: option.splits)
qed

lemma entity_type_loop_columns:
  assumes "generates_fresh env column_prefix"
    and "\<forall>n \<in> set ns. names_of_type es n = Inr (map entity_name (filter (entity_type_is n) es))"
  shows "\<exists>cols. length cols = length ns \<and> distinct cols \<and> set cols \<inter> set (keys r) = {}
           \<and> entity_type_loop env column_prefix (JArr es) r ns =
               (r @ zip cols (map (entity_column_value es) ns), None)"
  using assms(2)
proof (induction ns arbitrary: r)
  case Nil
  then show ?case by simp
next
  case (Cons n ns)
  define c where "c = generate_unique env (''entity_type_'' @ lower n) (keys r) column_prefix"
  let ?c = c
  let ?names = "map entity_name (filter (entity_type_is n) es)"
  let ?r2 = "r @ [(?c, entity_column_value es n)]"
  have c: "?c \<notin> set (keys r)"
    using assms(1) by (simp add: generates_fresh_def c_def)
  from Cons.prems have names: "names_of_type es n = Inr ?names"
    and ns: "\<forall>n \<in> set ns.
               names_of_type es n = Inr (map entity_name (filter (entity_type_is n) es))"
    by simp_all
  have written: "(if length ?names = 0
                  then AList.update ?c (JStr '''') (AList.update ?c (JArr ?names) r)
                  else AList.update ?c (JArr ?names) r) = ?r2"
    using c by (simp add: update_fresh update_append_right entity_column_value_def Let_def)
  have "entity_type_loop env column_prefix (JArr es) r (n # ns) =
          entity_type_loop env column_prefix (JArr es)
            (if length ?names = 0
             then AList.update ?c (JStr '''') (AList.update ?c (JArr ?names) r)
             else AList.update ?c (JArr ?names) r) ns"
    unfolding c_def using names by (simp add: Let_def del: AList.update_last)
  then have step: "entity_type_loop env column_prefix (JArr es) r (n # ns) =
          entity_type_loop env column_prefix (JArr es) ?r2 ns"
    by (simp only: written)
  from Cons.IH [OF ns, of ?r2] obtain cols where
    len: "length cols = length ns" and dist: "distinct cols"
    and disj: "set cols \<inter> set (keys ?r2) = {}"
    and res: "entity_type_loop env column_prefix (JArr es) ?r2 ns =
               (?r2 @ zip cols (map (entity_column_value es) ns), None)"
    by blast
  from disj have "?c \<notin> set cols" and "set cols \<inter> set (keys r) = {}"
    by (auto simp: keys_def)
  moreover have "entity_type_loop env column_prefix (JArr es) r (n # ns) =
      (r @ zip (c # cols) (map (entity_column_value es) (n # ns)), None)"
    unfolding step res by simp
  ultimately show ?case
    using len dist c by (intro exI [of _ "c # cols"]) (simp del: entity_type_loop.simps)
qed

text \<open>
  Claim C2. When the response column decodes to an object whose entities are a list of
  objects (or are absent), the multiple-columns branch returns the row followed by one
  new column per member of the entity-type enumeration, in the order of the enumeration.
  The column of a type holds the names, in input order, of the entities of that type,
  and the empty string when there is none. The name generator is assumed to return
  fresh names, and the enumeration to have no member with the empty name.
\<close>

theorem format_named_entity_recognition_columns:
  assumes "generates_fresh env column_prefix"
    and "map_of r response_column = Some raw_response"
    and "safe_json_loads env raw_response error_handling = Inr response"
    and "py_get response ''entities'' (JArr []) = Inr (JArr es)"
    and "\<forall>e \<in> set es. is_object e"
    and "'''' \<notin> set (entity_type_members env)"
  shows "\<exists>cols. length cols = length (entity_type_members env) \<and> distinct cols
           \<and> set cols \<inter> set (keys r) = {}
           \<and> format_named_entity_recognition env r response_column MULTIPLE_COLUMNS
                column_prefix error_handling =
               (r @ zip cols (map (entity_column_value es) (entity_type_members env)), None)"
proof -
  have "format_named_entity_recognition env r response_column MULTIPLE_COLUMNS
                column_prefix error_handling =
        entity_type_loop env column_prefix (JArr es) r (entity_type_members env)"
    using assms(2,3,4) by (simp add: format_named_entity_recognition_def)
  moreover have "\<forall>n \<in> set (entity_type_members env).
      names_of_type es n = Inr (map entity_name (filter (entity_type_is n) es))"
    using assms(5,6) names_of_type_objects [of es] by metis
  from entity_type_loop_columns [OF assms(1) this, of r]
  have "\<exists>cols. length cols = length (entity_type_members env) \<and> distinct cols
           \<and> set cols \<inter> set (keys r) = {}
           \<and> entity_type_loop env column_prefix (JArr es) r (entity_type_members env) =
               (r @ zip cols (map (entity_column_value es) (entity_type_members env)), None)" .
  ultimately show ?thesis by simp
qed

text \<open>The example of the specification: one entity named A of type PERSON.\<close>

theorem format_named_entity_recognition_columns_witness:
  "generates_fresh sample_env ''ner_api''
   \<and> map_of row_person ''response'' = Some (JStr doc_person)
   \<and> safe_json_loads sample_env (JStr doc_person) LOG =
        Inr (JObj [(''entities'',
                    JArr [JObj [(''name'', JStr ''A''), (''type'', JStr ''PERSON'')]])])
   \<and> (\<exists>cols. length cols = length (entity_type_members sample_env) \<and> distinct cols
           \<and> set cols \<inter> set (keys row_person) = {}
           \<and> format_named_entity_recognition sample_env row_person ''response''
                MULTIPLE_COLUMNS ''ner_api'' LOG =
               (row_person @ zip cols
                  (map (entity_column_value
                          [JObj [(''name'', JStr ''A''), (''type'', JStr ''PERSON'')]])
                     (entity_type_members sample_env)), None))
   \<and> format_named_entity_recognition sample_env row_person ''response'' MULTIPLE_COLUMNS
        ''ner_api'' LOG =
        (row_person @
           [(''ner_api_entity_type_unknown'', JStr ''''),
            (''ner_api_entity_type_person'', JArr [JStr ''A'']),
            (''ner_api_entity_type_location'', JStr ''''),
            (''ner_api_entity_type_organization'', JStr ''''),
            (''ner_api_entity_type_event'', JStr ''''),
            (''ner_api_entity_type_work_of_art'', JStr ''''),
            (''ner_api_entity_type_consumer_good'', JStr ''''),
            (''ner_api_entity_type_other'', JStr ''''),
            (''ner_api_entity_type_phone_number'', JStr ''''),
            (''ner_api_entity_type_address'', JStr ''''),
            (''ner_api_entity_type_date'', JStr ''''),
            (''ner_api_entity_type_number'', JStr ''''),
            (''ner_api_entity_type_price'', JStr '''')], None)"
proof -
  let ?es = "[JObj [(''name'', JStr ''A''), (''type'', JStr ''PERSON'')]]"
  have h2: "map_of row_person ''response'' = Some (JStr doc_person)"
    by code_simp
  have h3: "safe_json_loads sample_env (JStr doc_person) LOG = Inr (JObj [(''entities'', JArr ?es)])"
    by code_simp
  have h4: "py_get (JObj [(''entities'', JArr ?es)]) ''entities'' (JArr []) = Inr (JArr ?es)"
    by simp
  have h5: "\<forall>e \<in> set ?es. is_object e"
    by (simp add: is_object_def)
  have h6: "'''' \<notin> set (entity_type_members sample_env)"
    by (simp add: sample_env_def sample_entity_types_def)
  have ev: "format_named_entity_recognition sample_env row_person ''response'' MULTIPLE_COLUMNS
        ''ner_api'' LOG =
        (row_person @
           [(''ner_api_entity_type_unknown'', JStr ''''),
            (''ner_api_entity_type_person'', JArr [JStr ''A'']),
            (''ner_api_entity_type_location'', JStr ''''),
            (''ner_api_entity_type_organization'', JStr ''''),
            (''ner_api_entity_type_event'', JStr ''''),
            (''ner_api_entity_type_work_of_art'', JStr ''''),
            (''ner_api_entity_type_consumer_good'', JStr ''''),
            (''ner_api_entity_type_other'', JStr ''''),
            (''ner_api_entity_type_phone_number'', JStr ''''),
            (''ner_api_entity_type_address'', JStr ''''),
            (''ner_api_entity_type_date'', JStr ''''),
            (''ner_api_entity_type_number'', JStr ''''),
            (''ner_api_entity_type_price'', JStr '''')], None)"
    by code_simp
  from format_named_entity_recognition_columns
         [OF sample_env_generates_fresh h2 h3 h4 h5 h6, of "''ner_api''"]
    sample_env_generates_fresh [of "''ner_api''"] h2 h3 ev
  show ?thesis by blast
qed

section \<open>Text classification: the sort\<close>

lemma py_lt_numeric:
  "num_val a = Some p \<Longrightarrow> num_val b = Some q \<Longrightarrow> py_lt a b = Inr (p < q)"
  by (cases a) (auto split: if_splits)

lemma confidence_numeric:
  assumes "confidence_num c \<noteq> None"
  shows "is_object c"
    and "num_val (field_or c ''confidence'' JNull) = Some (confidence_value c)"
  using assms
  by (cases c; auto simp: confidence_num_def confidence_value_def is_object_def field_or_def
        split: option.splits)+

lemma confidence_keys_objects:
  "\<forall>c \<in> set cats. is_object c \<Longrightarrow> confidence_keys cats = Inr (map tagged cats)"
  by (induction cats) (simp_all add: py_get_object tagged_def)

lemma insert_desc_numeric:
  assumes "confidence_num x \<noteq> None" and "\<forall>c \<in> set ys. confidence_num c \<noteq> None"
  shows "insert_desc (tagged x) (map tagged ys) =
           Inr (map tagged (insort_key (\<lambda>c. - confidence_value c) x ys))"
  using assms(2)
proof (induction ys)
  case Nil
  then show ?case by simp
next
  case (Cons y ys)
  have "py_lt (fst (tagged x)) (fst (tagged y)) = Inr (confidence_value x < confidence_value y)"
    using confidence_numeric(2) [OF assms(1)] confidence_numeric(2) [of y] Cons.prems
    by (simp add: tagged_def py_lt_numeric)
  moreover have "insert_desc (tagged x) (map tagged ys) =
           Inr (map tagged (insort_key (\<lambda>c. - confidence_value c) x ys))"
    using Cons by simp
  ultimately show ?case by (auto simp: not_less)
qed

lemma sorted_desc_numeric:
  assumes "\<forall>c \<in> set cats. confidence_num c \<noteq> None"
  shows "sorted_desc (map tagged cats) = Inr (map tagged (by_confidence_descending cats))"
  using assms
proof (induction cats)
  case Nil
  then show ?case by (simp add: by_confidence_descending_def)
next
  case (Cons x cats)
  then have ih: "sorted_desc (map tagged cats) =
      Inr (map tagged (sort_key (\<lambda>c. - confidence_value c) cats))"
    by (simp add: by_confidence_descending_def)
  have "\<forall>c \<in> set (sort_key (\<lambda>c. - confidence_value c) cats). confidence_num c \<noteq> None"
    using Cons.prems by simp
  from insert_desc_numeric [OF _ this, of x] Cons.prems ih show ?case
    by (simp add: by_confidence_descending_def)
qed

lemma sorted_by_confidence_numeric:
  assumes "\<forall>c \<in> set cats. confidence_num c \<noteq> None"
  shows "sorted_by_confidence (JArr cats) = Inr (by_confidence_descending cats)"
proof -
  have "\<forall>c \<in> set cats. is_object c"
    using assms confidence_numeric(1) by blast
  then have "confidence_keys cats = Inr (map tagged cats)"
    by (rule confidence_keys_objects)
  moreover have "map snd (map tagged xs) = xs" for xs
    by (induction xs) (simp_all add: tagged_def)
  ultimately show ?thesis
    using sorted_desc_numeric [OF assms] by (simp add: sorted_by_confidence_def)
qed

lemma by_confidence_descending_sorted:
  "sorted_wrt (\<lambda>a b. confidence_value a \<ge> confidence_value b) (by_confidence_descending cats)"
  using sorted_sort_key [of "\<lambda>c. - confidence_value c" cats]
  by (simp add: by_confidence_descending_def sorted_map)

lemma by_confidence_descending_mset:
  "mset (by_confidence_descending cats) = mset cats"
  by (simp add: by_confidence_descending_def)

lemma by_confidence_descending_stable:
  "filter (\<lambda>c. confidence_value c = q) (by_confidence_descending cats) =
     filter (\<lambda>c. confidence_value c = q) cats"
  using sort_key_stable [of "\<lambda>c. - confidence_value c" "- q" cats]
  by (simp add: by_confidence_descending_def)

section \<open>Text classification: the top categories\<close>

lemma category_slot_objects:
  assumes "\<forall>c \<in> set cats. is_object c" and "n < length cats"
  shows "py_get (cats ! n) ''name'' (JStr '''') = Inr (fst (category_slot cats n))"
    and "py_get (cats ! n) ''confidence'' JNull = Inr (snd (category_slot cats n))"
  using assms by (simp_all add: category_slot_def py_get_object)

lemma write_pair:
  assumes "cc \<notin> set (keys r)" and "cf \<notin> set (keys r)" and "cc \<noteq> cf"
  shows "AList.update cf w (AList.update cc v r) = r @ [(cc, v), (cf, w)]"
  using assms by (simp add: update_fresh update_append_right)

lemma category_loop_columns:
  assumes "generates_fresh env column_prefix"
    and "category_columns_differ env column_prefix"
    and "\<forall>c \<in> set cats. is_object c"
  shows "\<exists>cols. length cols = length ns \<and> distinct (column_names cols)
           \<and> set (column_names cols) \<inter> set (keys r) = {}
           \<and> category_loop env column_prefix cats r ns =
               (r @ concat (map2 (slot_entries cats) ns cols), None)"
proof (induction ns arbitrary: r)
  case Nil
  then show ?case by (simp add: column_names_def)
next
  case (Cons n ns)
  define cc where "cc = generate_unique env (''category_'' @ str_nat n) (keys r) column_prefix"
  define cf where "cf = generate_unique env (''category_'' @ str_nat n @ ''_confidence'')
                          (keys r) column_prefix"
  let ?r2 = "r @ slot_entries cats n (cc, cf)"
  have cc: "cc \<notin> set (keys r)" and cf: "cf \<notin> set (keys r)"
    using assms(1) by (simp_all add: generates_fresh_def cc_def cf_def)
  have ne: "cc \<noteq> cf"
    using assms(2) by (simp add: category_columns_differ_def cc_def cf_def)
  have written: "AList.update cf (snd (category_slot cats n))
                   (AList.update cc (fst (category_slot cats n)) r) = ?r2"
    using write_pair [OF cc cf ne] by (simp add: slot_entries_def)
  have step: "category_loop env column_prefix cats r (n # ns) =
                category_loop env column_prefix cats ?r2 ns"
  proof (cases "n < length cats")
    case True
    have "category_loop env column_prefix cats r (n # ns) =
            category_loop env column_prefix cats
              (AList.update cf (snd (category_slot cats n))
                 (AList.update cc (fst (category_slot cats n)) r)) ns"
      unfolding cc_def cf_def
      using True category_slot_objects [OF assms(3) True] by (simp add: Let_def)
    then show ?thesis by (simp only: written)
  next
    case False
    have "category_loop env column_prefix cats r (n # ns) =
            category_loop env column_prefix cats
              (AList.update cf (snd (category_slot cats n))
                 (AList.update cc (fst (category_slot cats n)) r)) ns"
      unfolding cc_def cf_def
      using False by (simp add: Let_def category_slot_def)
    then show ?thesis by (simp only: written)
  qed
  from Cons.IH [of ?r2] obtain cols where
    len: "length cols = length ns" and dist: "distinct (column_names cols)"
    and disj: "set (column_names cols) \<inter> set (keys ?r2) = {}"
    and res: "category_loop env column_prefix cats ?r2 ns =
               (?r2 @ concat (map2 (slot_entries cats) ns cols), None)"
    by blast
  from disj have notin: "cc \<notin> set (column_names cols)" "cf \<notin> set (column_names cols)"
    and disj': "set (column_names cols) \<inter> set (keys r) = {}"
    by (auto simp: keys_def slot_entries_def)
  have "category_loop env column_prefix cats r (n # ns) =
      (r @ concat (map2 (slot_entries cats) (n # ns) ((cc, cf) # cols)), None)"
    unfolding step res by simp
  moreover have "distinct (column_names ((cc, cf) # cols))"
    using dist notin ne by (simp add: column_names_def)
  moreover have "set (column_names ((cc, cf) # cols)) \<inter> set (keys r) = {}"
    using disj' cc cf by (simp add: column_names_def)
  ultimately show ?case
    using len by (intro exI [of _ "(cc, cf) # cols"]) (simp del: category_loop.simps)
qed

text \<open>
  Claim C3. When the response column decodes to an object whose categories are a list of
  objects with numeric confidences, the multiple-columns branch returns the row followed
  by exactly \<open>num_categories\<close> pairs of new columns. Pair \<open>n\<close> holds the name and the
  confidence of the \<open>n\<close>-th category in descending order of confidence, categories of
  equal confidence keeping their input order, and the sentinels \<open>('', None)\<close> when there
  are no more than \<open>n\<close> categories. The name generator is assumed to return fresh names
  and to keep the name and the confidence column of a category apart.
\<close>

theorem format_text_classification_top_categories:
  assumes "generates_fresh env column_prefix"
    and "category_columns_differ env column_prefix"
    and "map_of r response_column = Some raw_response"
    and "safe_json_loads env raw_response error_handling = Inr response"
    and "py_get response ''categories'' (JArr []) = Inr (JArr cats)"
    and "\<forall>c \<in> set cats. confidence_num c \<noteq> None"
  shows "(\<exists>cols. length cols = nat num_categories \<and> distinct (column_names cols)
            \<and> set (column_names cols) \<inter> set (keys r) = {}
            \<and> format_text_classification env r response_column MULTIPLE_COLUMNS
                 num_categories column_prefix error_handling =
                (r @ concat (map2 (slot_entries (by_confidence_descending cats))
                               [0 ..< nat num_categories] cols), None))
       \<and> sorted_wrt (\<lambda>a b. confidence_value a \<ge> confidence_value b)
            (by_confidence_descending cats)
       \<and> mset (by_confidence_descending cats) = mset cats
       \<and> (\<forall>q. filter (\<lambda>c. confidence_value c = q) (by_confidence_descending cats) =
                filter (\<lambda>c. confidence_value c = q) cats)"
proof -
  let ?top = "by_confidence_descending cats"
  have sorted: "sorted_by_confidence (JArr cats) = Inr ?top"
    using assms(6) by (rule sorted_by_confidence_numeric)
  have "\<forall>c \<in> set ?top. is_object c"
    using assms(6) confidence_numeric(1) by (auto simp: by_confidence_descending_def)
  from category_loop_columns [OF assms(1,2) this, of "[0 ..< nat num_categories]" r]
  obtain cols where "length cols = nat num_categories" and "distinct (column_names cols)"
    and "set (column_names cols) \<inter> set (keys r) = {}"
    and "category_loop env column_prefix ?top r [0 ..< nat num_categories] =
           (r @ concat (map2 (slot_entries ?top) [0 ..< nat num_categories] cols), None)"
    by auto
  moreover have "format_text_classification env r response_column MULTIPLE_COLUMNS
                 num_categories column_prefix error_handling =
               category_loop env column_prefix ?top r [0 ..< nat num_categories]"
    using assms(3,4,5) sorted by (simp add: format_text_classification_def)
  ultimately show ?thesis
    using by_confidence_descending_sorted [of cats] by_confidence_descending_mset [of cats]
      by_confidence_descending_stable [of _ cats]
    by auto
qed

text \<open>The example generator keeps the two columns of a category apart.\<close>

lemma digit_char: "(d::nat) < 10 \<Longrightarrow> (char_of (48 + d) :: char) \<in> set ''0123456789''"
proof -
  assume "d < 10"
  moreover have "\<forall>k \<in> set [0 ..< 10 :: nat]. (char_of (48 + k) :: char) \<in> set ''0123456789''"
    by code_simp
  ultimately show ?thesis by simp
qed

lemma str_nat_digits: "set (str_nat n) \<subseteq> set ''0123456789''"
proof (induction n rule: str_nat.induct)
  case (1 n)
  show ?case
  proof (cases "n < 10")
    case True
    then have "str_nat n = [char_of (48 + n)]" by (subst str_nat.simps) simp
    with digit_char [OF True] show ?thesis by simp
  next
    case False
    then have "str_nat n = str_nat (n div 10) @ [char_of (48 + n mod 10)]"
      by (subst str_nat.simps) simp
    moreover have "(char_of (48 + n mod 10) :: char) \<in> set ''0123456789''"
      by (rule digit_char) simp
    ultimately show ?thesis using "1.IH" [OF False] by simp
  qed
qed

lemma sample_generate_unique_candidate:
  "\<exists>i. sample_generate_unique name ks prefix = unique_candidate (prefix @ ''_'' @ name) i"
proof (cases "find (\<lambda>c. c \<notin> set ks)
               (map (unique_candidate (prefix @ ''_'' @ name)) [0 ..< Suc (length ks)])")
  case None
  then have "sample_generate_unique name ks prefix = unique_candidate (prefix @ ''_'' @ name) 0"
    by (simp add: sample_generate_unique_def unique_candidate_def)
  then show ?thesis ..
next
  case (Some c)
  then have "c \<in> set (map (unique_candidate (prefix @ ''_'' @ name)) [0 ..< Suc (length ks)])"
    by (auto simp: find_Some_iff simp del: upt_Suc)
  then obtain i where "c = unique_candidate (prefix @ ''_'' @ name) i"
    by (auto simp del: upt_Suc)
  with Some show ?thesis by (auto simp: sample_generate_unique_def simp del: upt_Suc)
qed

lemma candidates_differ:
  "unique_candidate base i \<noteq> unique_candidate (base @ ''_confidence'') j"
proof
  assume eq: "unique_candidate base i = unique_candidate (base @ ''_confidence'') j"
  show False
  proof (cases "i = 0")
    case True
    with eq show False by (auto simp: unique_candidate_def split: if_splits)
  next
    case False
    with eq have "CHR ''c'' \<in> set (str_nat i)"
      by (auto simp: unique_candidate_def split: if_splits)
    with str_nat_digits [of i] show False by auto
  qed
qed

lemma sample_env_category_columns_differ: "category_columns_differ sample_env column_prefix"
proof -
  have "sample_generate_unique (''category_'' @ str_nat n) ks column_prefix
          \<noteq> sample_generate_unique (''category_'' @ str_nat n @ ''_confidence'') ks
               column_prefix" for n ks
    using sample_generate_unique_candidate [of "''category_'' @ str_nat n" ks column_prefix]
      sample_generate_unique_candidate
        [of "''category_'' @ str_nat n @ ''_confidence''" ks column_prefix]
      candidates_differ [of "column_prefix @ ''_'' @ ''category_'' @ str_nat n"]
    by (metis append_assoc)
  then show ?thesis by (simp add: category_columns_differ_def sample_env_def)
qed

text \<open>
  The example of the specification: two categories and the default of three slots. The
  categories come out in descending order of confidence and the third pair is the
  sentinels.
\<close>

theorem format_text_classification_top_categories_witness:
  "generates_fresh sample_env ''classification_api''
   \<and> category_columns_differ sample_env ''classification_api''
   \<and> by_confidence_descending
        [JObj [(''name'', JStr ''/News''), (''confidence'', JNum (1 / 2))],
         JObj [(''name'', JStr ''/Arts''), (''confidence'', JNum (9 / 10))]] =
        [JObj [(''name'', JStr ''/Arts''), (''confidence'', JNum (9 / 10))],
         JObj [(''name'', JStr ''/News''), (''confidence'', JNum (1 / 2))]]
   \<and> (\<exists>cols. length cols = nat default_num_categories
          \<and> format_text_classification sample_env row_two_categories ''response''
               MULTIPLE_COLUMNS default_num_categories ''classification_api'' LOG =
              (row_two_categories @
                 concat (map2 (slot_entries (by_confidence_descending
                      [JObj [(''name'', JStr ''/News''), (''confidence'', JNum (1 / 2))],
                       JObj [(''name'', JStr ''/Arts''), (''confidence'', JNum (9 / 10))]]))
                   [0 ..< nat default_num_categories] cols), None))
   \<and> format_text_classification sample_env row_two_categories ''response'' MULTIPLE_COLUMNS
        default_num_categories ''classification_api'' LOG =
        (row_two_categories @
           [(''classification_api_category_0'', JStr ''/Arts''),
            (''classification_api_category_0_confidence'', JNum (9 / 10)),
            (''classification_api_category_1'', JStr ''/News''),
            (''classification_api_category_1_confidence'', JNum (1 / 2)),
            (''classification_api_category_2'', JStr ''''),
            (''classification_api_category_2_confidence'', JNull)], None)"
proof -
  let ?cats = "[JObj [(''name'', JStr ''/News''), (''confidence'', JNum (1 / 2))],
                JObj [(''name'', JStr ''/Arts''), (''confidence'', JNum (9 / 10))]]"
  have h3: "map_of row_two_categories ''response'' = Some (JStr doc_two_categories)"
    by code_simp
  have h4: "safe_json_loads sample_env (JStr doc_two_categories) LOG =
              Inr (JObj [(''categories'', JArr ?cats)])"
    by code_simp
  have h5: "py_get (JObj [(''categories'', JArr ?cats)]) ''categories'' (JArr []) =
              Inr (JArr ?cats)"
    by simp
  have h6: "\<forall>c \<in> set ?cats. confidence_num c \<noteq> None"
    by code_simp
  have srt: "by_confidence_descending ?cats =
        [JObj [(''name'', JStr ''/Arts''), (''confidence'', JNum (9 / 10))],
         JObj [(''name'', JStr ''/News''), (''confidence'', JNum (1 / 2))]]"
    by code_simp
  have ev: "format_text_classification sample_env row_two_categories ''response''
        MULTIPLE_COLUMNS default_num_categories ''classification_api'' LOG =
        (row_two_categories @
           [(''classification_api_category_0'', JStr ''/Arts''),
            (''classification_api_category_0_confidence'', JNum (9 / 10)),
            (''classification_api_category_1'', JStr ''/News''),
            (''classification_api_category_1_confidence'', JNum (1 / 2)),
            (''classification_api_category_2'', JStr ''''),
            (''classification_api_category_2_confidence'', JNull)], None)"
    by code_simp
  from format_text_classification_top_categories
         [OF sample_env_generates_fresh sample_env_category_columns_differ h3 h4 h5 h6,
          where column_prefix = "''classification_api''"
            and num_categories = default_num_categories]
    sample_env_generates_fresh [of "''classification_api''"]
    sample_env_category_columns_differ [of "''classification_api''"] srt ev
  show ?thesis by blast
qed

section \<open>Text classification: a category without confidence\<close>

lemma py_lt_error:
  "(py_lt a b = Inl e \<longrightarrow> e = TypeError)"
  "(py_lt_list xs ys = Inl e \<longrightarrow> e = TypeError)"
  by (induction a b and xs ys rule: py_lt_py_lt_list.induct)
     (auto split: json.splits option.splits list.splits if_splits)

lemma py_lt_None_right: "py_lt a JNull = Inl TypeError"
  by (cases a) simp_all

lemma insert_desc_error: "insert_desc x ys = Inl e \<Longrightarrow> e = TypeError"
  by (induction ys) (auto split: sum.splits if_splits dest: py_lt_error(1) [rule_format])

lemma sorted_desc_error: "sorted_desc ks = Inl e \<Longrightarrow> e = TypeError"
  by (induction ks arbitrary: e) (auto split: sum.splits dest: insert_desc_error)

lemma insert_desc_mset: "insert_desc x ys = Inr zs \<Longrightarrow> mset zs = add_mset x (mset ys)"
  by (induction ys arbitrary: zs) (auto split: sum.splits if_splits)

lemma sorted_desc_mset: "sorted_desc ks = Inr ys \<Longrightarrow> mset ys = mset ks"
  by (induction ks arbitrary: ys) (auto split: sum.splits dest: insert_desc_mset)

lemma insert_desc_None_key:
  assumes "ys \<noteq> []" and "fst x = JNull \<or> (\<forall>y \<in> set ys. fst y = JNull)"
  shows "insert_desc x ys = Inl TypeError"
proof (cases ys)
  case Nil
  with assms(1) show ?thesis by simp
next
  case (Cons y ys')
  from assms(2) have "py_lt (fst x) (fst y) = Inl TypeError"
  proof
    assume "fst x = JNull"
    then show ?thesis by simp
  next
    assume "\<forall>y \<in> set ys. fst y = JNull"
    with Cons have "fst y = JNull" by simp
    then show ?thesis by (simp add: py_lt_None_right)
  qed
  with Cons show ?thesis by simp
qed

lemma sorted_desc_None_key:
  assumes "JNull \<in> fst ` set ks" and "2 \<le> length ks"
  shows "sorted_desc ks = Inl TypeError"
  using assms
proof (induction ks)
  case Nil
  then show ?case by simp
next
  case (Cons x xs)
  show ?case
  proof (cases "sorted_desc xs")
    case (Inl e)
    with sorted_desc_error [OF Inl] show ?thesis by simp
  next
    case (Inr ys)
    from sorted_desc_mset [OF Inr] have ms: "mset ys = mset xs" .
    then have len: "length ys = length xs" by (metis size_mset)
    from ms have set: "set ys = set xs" by (metis set_mset_mset)
    from Cons.prems(2) len have ne: "ys \<noteq> []" by auto
    have "fst x = JNull \<or> (\<forall>y \<in> set ys. fst y = JNull)"
    proof (cases "fst x = JNull")
      case True
      then show ?thesis ..
    next
      case False
      with Cons.prems(1) have in_xs: "JNull \<in> fst ` set xs" by auto
      have "\<not> 2 \<le> length xs"
        using Cons.IH [OF in_xs] Inr by auto
      with Cons.prems(2) have "length xs = Suc 0" by simp
      then obtain y where "xs = [y]"
        by (auto simp: length_Suc_conv)
      with in_xs set show ?thesis by auto
    qed
    with ne have "insert_desc x ys = Inl TypeError" by (rule insert_desc_None_key)
    with Inr show ?thesis by simp
  qed
qed

text \<open>
  Claim C9. When the categories are a list of objects of which one has no confidence
  (its sort key is \<^verbatim>\<open>None\<close>) and another has a numeric confidence, the
  multiple-columns branch raises the \<^verbatim>\<open>TypeError\<close> of the comparison in the sort and
  leaves the row as it was; no sentinel is substituted for the missing confidence.
\<close>

theorem format_text_classification_missing_confidence:
  assumes "map_of r response_column = Some raw_response"
    and "safe_json_loads env raw_response error_handling = Inr response"
    and "py_get response ''categories'' (JArr []) = Inr (JArr cats)"
    and "\<forall>c \<in> set cats. is_object c"
    and "c1 \<in> set cats" and "field_or c1 ''confidence'' JNull = JNull"
    and "c2 \<in> set cats" and "confidence_num c2 \<noteq> None"
  shows "format_text_classification env r response_column MULTIPLE_COLUMNS num_categories
           column_prefix error_handling = (r, Some TypeError)"
proof -
  have keys: "confidence_keys cats = Inr (map tagged cats)"
    using assms(4) by (rule confidence_keys_objects)
  have "fst (tagged c1) = JNull"
    using assms(6) by (simp add: tagged_def)
  with assms(5) have null: "JNull \<in> fst ` set (map tagged cats)" by force
  have "c1 \<noteq> c2"
    using assms(6) confidence_numeric(2) [OF assms(8)] by auto
  with assms(5,7) have "2 \<le> length cats"
    by (cases cats; cases "tl cats") auto
  then have "sorted_desc (map tagged cats) = Inl TypeError"
    using null by (intro sorted_desc_None_key) simp_all
  with keys have "sorted_by_confidence (JArr cats) = Inl TypeError"
    by (simp add: sorted_by_confidence_def)
  with assms(1,2,3) show ?thesis
    by (simp add: format_text_classification_def)
qed

theorem format_text_classification_missing_confidence_witness:
  "map_of row_missing_confidence ''response'' = Some (JStr doc_missing_confidence)
   \<and> safe_json_loads sample_env (JStr doc_missing_confidence) LOG =
        Inr (JObj [(''categories'',
               JArr [JObj [(''name'', JStr ''/News''), (''confidence'', JNum (1 / 2))],
                     JObj [(''name'', JStr ''/Arts'')]])])
   \<and> field_or (JObj [(''name'', JStr ''/Arts'')]) ''confidence'' JNull = JNull
   \<and> confidence_num (JObj [(''name'', JStr ''/News''), (''confidence'', JNum (1 / 2))])
        = Some (1 / 2)
   \<and> format_text_classification sample_env row_missing_confidence ''response''
        MULTIPLE_COLUMNS 3 ''classification_api'' LOG =
        (row_missing_confidence, Some TypeError)"
proof -
  let ?c2 = "JObj [(''name'', JStr ''/News''), (''confidence'', JNum (1 / 2))]"
  let ?c1 = "JObj [(''name'', JStr ''/Arts'')]"
  have h1: "map_of row_missing_confidence ''response'' = Some (JStr doc_missing_confidence)"
    by code_simp
  have h2: "safe_json_loads sample_env (JStr doc_missing_confidence) LOG =
              Inr (JObj [(''categories'', JArr [?c2, ?c1])])"
    by code_simp
  have h3: "py_get (JObj [(''categories'', JArr [?c2, ?c1])]) ''categories'' (JArr []) =
              Inr (JArr [?c2, ?c1])"
    by simp
  have h4: "\<forall>c \<in> set [?c2, ?c1]. is_object c"
    by (simp add: is_object_def)
  have h5: "?c1 \<in> set [?c2, ?c1]" and h7: "?c2 \<in> set [?c2, ?c1]"
    by simp_all
  have h6: "field_or ?c1 ''confidence'' JNull = JNull"
    by (simp add: field_or_def)
  have h8: "confidence_num ?c2 = Some (1 / 2)"
    by (simp add: confidence_num_def)
  then have h8': "confidence_num ?c2 \<noteq> None" by simp
  from format_text_classification_missing_confidence [OF h1 h2 h3 h4 h5 h6 h7 h8',
         where num_categories = 3 and column_prefix = "''classification_api''"] h1 h2 h6 h8
  show ?thesis by blast
qed

section \<open>Sentiment analysis: score, scaled score and magnitude\<close>

lemma scale_sentiment_score_not_None:
  "scale_sentiment_score env score scale = Inr v \<Longrightarrow> v \<noteq> JNull"
  by (auto simp: scale_sentiment_score_def split: if_splits sum.splits option.splits)


lemma write_score_returns:
  assumes "write_score env c1 c2 scale score r = (r2, None)"
  shows "(score = JNull \<and> r2 = AList.update c2 JNull (AList.update c1 JNull r))
       \<or> (score \<noteq> JNull \<and> (\<exists>f v. py_float env score = Inr f
              \<and> scale_sentiment_score env score scale = Inr v
              \<and> r2 = AList.update c2 v (AList.update c1 (JNum f) r)))"
  using assms by (auto simp: write_score_def Let_def split: if_splits sum.splits)

lemma write_magnitude_returns:
  assumes "write_magnitude env c3 magnitude r2 = (r3, None)"
  shows "\<exists>v. r3 = AList.update c3 v r2"
  using assms by (auto simp: write_magnitude_def split: if_splits sum.splits)

lemma format_sentiment_analysis_returns:
  assumes "format_sentiment_analysis env r response_column sentiment_scale column_prefix
             error_handling = (r', None)"
    and "map_of r response_column = Some raw_response"
    and "safe_json_loads env raw_response error_handling = Inr response"
  shows "\<exists>r2. write_score env (generate_unique env ''score'' (keys r) column_prefix)
                (generate_unique env ''score_scaled'' (keys r) column_prefix) sentiment_scale
                (field_or (field_or response ''documentSentiment'' (JObj [])) ''score'' JNull) r
                = (r2, None)
            \<and> write_magnitude env (generate_unique env ''magnitude'' (keys r) column_prefix)
                (field_or (field_or response ''documentSentiment'' (JObj [])) ''magnitude''
                   JNull) r2
                = (r', None)"
proof -
  obtain kv where response: "response = JObj kv"
    using assms by (cases response) (auto simp: format_sentiment_analysis_def Let_def)
  obtain kw where sentiment: "field_or response ''documentSentiment'' (JObj []) = JObj kw"
    using assms response
    by (cases "field_or response ''documentSentiment'' (JObj [])")
       (auto simp: format_sentiment_analysis_def Let_def field_or_def)
  show ?thesis
    using assms sentiment unfolding response
    by (auto simp: format_sentiment_analysis_def Let_def field_or_def
          split: prod.splits option.splits)
qed

text \<open>
  Claim C10. After \<^verbatim>\<open>format_sentiment_analysis\<close> has returned, the scaled-score column
  is \<^verbatim>\<open>None\<close> exactly when the score column is, which is exactly when the decoded
  sentiment object has no score (\<^verbatim>\<open>get\<close> gives \<^verbatim>\<open>None\<close>); when there is a score, the
  scaled-score column holds \<^verbatim>\<open>scale_sentiment_score\<close> of it. Nothing is assumed of the
  magnitude. The three generated column names are assumed to be pairwise different.
\<close>

theorem scaled_score_null_iff_score_null:
  assumes "format_sentiment_analysis env r response_column sentiment_scale column_prefix
             error_handling = (r', None)"
    and "map_of r response_column = Some raw_response"
    and "safe_json_loads env raw_response error_handling = Inr response"
    and "distinct [generate_unique env ''score'' (keys r) column_prefix,
                   generate_unique env ''score_scaled'' (keys r) column_prefix,
                   generate_unique env ''magnitude'' (keys r) column_prefix]"
  shows "(map_of r' (generate_unique env ''score_scaled'' (keys r) column_prefix) = Some JNull
            \<longleftrightarrow> map_of r' (generate_unique env ''score'' (keys r) column_prefix) = Some JNull)
       \<and> (map_of r' (generate_unique env ''score'' (keys r) column_prefix) = Some JNull
            \<longleftrightarrow> field_or (field_or response ''documentSentiment'' (JObj [])) ''score'' JNull
                  = JNull)
       \<and> (field_or (field_or response ''documentSentiment'' (JObj [])) ''score'' JNull \<noteq> JNull
            \<longrightarrow> (\<exists>v. scale_sentiment_score env
                        (field_or (field_or response ''documentSentiment'' (JObj [])) ''score''
                           JNull) sentiment_scale = Inr v
                    \<and> map_of r' (generate_unique env ''score_scaled'' (keys r) column_prefix)
                        = Some v))"
proof -
  define c1 where "c1 = generate_unique env ''score'' (keys r) column_prefix"
  define c2 where "c2 = generate_unique env ''score_scaled'' (keys r) column_prefix"
  define c3 where "c3 = generate_unique env ''magnitude'' (keys r) column_prefix"
  define score where
    "score = field_or (field_or response ''documentSentiment'' (JObj [])) ''score'' JNull"
  from assms(4) have ne: "c1 \<noteq> c2" "c1 \<noteq> c3" "c2 \<noteq> c3"
    by (simp_all add: c1_def c2_def c3_def)
  from format_sentiment_analysis_returns [OF assms(1,2,3)] obtain r2 m where
    ws: "write_score env c1 c2 sentiment_scale score r = (r2, None)"
    and wm: "write_magnitude env c3 m r2 = (r', None)"
    unfolding c1_def c2_def c3_def score_def by blast
  from write_magnitude_returns [OF wm] obtain v3 where r': "r' = AList.update c3 v3 r2" ..
  from write_score_returns [OF ws]
  have "(map_of r' c2 = Some JNull \<longleftrightarrow> map_of r' c1 = Some JNull)
       \<and> (map_of r' c1 = Some JNull \<longleftrightarrow> score = JNull)
       \<and> (score \<noteq> JNull \<longrightarrow>
            (\<exists>v. scale_sentiment_score env score sentiment_scale = Inr v
                 \<and> map_of r' c2 = Some v))"
  proof
    assume "score = JNull \<and> r2 = AList.update c2 JNull (AList.update c1 JNull r)"
    with r' ne show ?thesis by (simp add: update_conv')
  next
    assume "score \<noteq> JNull \<and> (\<exists>f v. py_float env score = Inr f
              \<and> scale_sentiment_score env score sentiment_scale = Inr v
              \<and> r2 = AList.update c2 v (AList.update c1 (JNum f) r))"
    then obtain f v where "score \<noteq> JNull"
      and v: "scale_sentiment_score env score sentiment_scale = Inr v"
      and r2: "r2 = AList.update c2 v (AList.update c1 (JNum f) r)"
      by blast
    with r' ne scale_sentiment_score_not_None [OF v] show ?thesis
      by (simp add: update_conv')
  qed
  then show ?thesis
    unfolding c1_def c2_def c3_def score_def .
qed

text \<open>
  Two examples: a response with a score, where the row already has a column
  \<open>api_score\<close>, and a response without a score.
\<close>

theorem scaled_score_null_iff_score_null_witness:
  "format_sentiment_analysis sample_env row_sentiment ''response'' ''ternary'' ''api'' LOG =
     (row_sentiment @ [(''api_score_1'', JNum (1 / 2)),
                       (''api_score_scaled'', JStr ''positive''),
                       (''api_magnitude'', JNum 2)], None)
   \<and> scale_sentiment_score sample_env (JNum (1 / 2)) ''ternary'' = Inr (JStr ''positive'')
   \<and> map_of (row_sentiment @ [(''api_score_1'', JNum (1 / 2)),
                                (''api_score_scaled'', JStr ''positive''),
                                (''api_magnitude'', JNum 2)]) ''api_score_scaled'' =
        Some (JStr ''positive'')
   \<and> format_sentiment_analysis sample_env row_magnitude_only ''response'' ''ternary'' ''api''
        LOG =
     (row_magnitude_only @ [(''api_score'', JNull), (''api_score_scaled'', JNull),
                            (''api_magnitude'', JNum 2)], None)
   \<and> map_of (row_magnitude_only @ [(''api_score'', JNull), (''api_score_scaled'', JNull),
                                     (''api_magnitude'', JNum 2)]) ''api_score_scaled'' =
        Some JNull
   \<and> map_of (row_magnitude_only @ [(''api_score'', JNull), (''api_score_scaled'', JNull),
                                     (''api_magnitude'', JNum 2)]) ''api_score'' =
        Some JNull"
proof -
  let ?r1 = "row_sentiment @ [(''api_score_1'', JNum (1 / 2)),
                              (''api_score_scaled'', JStr ''positive''),
                              (''api_magnitude'', JNum 2)]"
  let ?r2 = "row_magnitude_only @ [(''api_score'', JNull), (''api_score_scaled'', JNull),
                                   (''api_magnitude'', JNum 2)]"
  let ?resp1 = "JObj [(''documentSentiment'',
                       JObj [(''score'', JNum (1 / 2)), (''magnitude'', JNum 2)])]"
  let ?resp2 = "JObj [(''documentSentiment'', JObj [(''magnitude'', JNum 2)])]"
  have a1: "format_sentiment_analysis sample_env row_sentiment ''response'' ''ternary''
              ''api'' LOG = (?r1, None)"
    by code_simp
  have a2: "map_of row_sentiment ''response'' = Some (JStr doc_sentiment)"
    by code_simp
  have a3: "safe_json_loads sample_env (JStr doc_sentiment) LOG = Inr ?resp1"
    by code_simp
  have a4: "distinct [generate_unique sample_env ''score'' (keys row_sentiment) ''api'',
                      generate_unique sample_env ''score_scaled'' (keys row_sentiment) ''api'',
                      generate_unique sample_env ''magnitude'' (keys row_sentiment) ''api'']"
    by code_simp
  have n1: "generate_unique sample_env ''score_scaled'' (keys row_sentiment) ''api'' =
              ''api_score_scaled''"
    by code_simp
  have s1: "field_or (field_or ?resp1 ''documentSentiment'' (JObj [])) ''score'' JNull =
              JNum (1 / 2)"
    by (simp add: field_or_def)
  have b1: "format_sentiment_analysis sample_env row_magnitude_only ''response'' ''ternary''
              ''api'' LOG = (?r2, None)"
    by code_simp
  have b2: "map_of row_magnitude_only ''response'' = Some (JStr doc_magnitude_only)"
    by code_simp
  have b3: "safe_json_loads sample_env (JStr doc_magnitude_only) LOG = Inr ?resp2"
    by code_simp
  have b4: "distinct [generate_unique sample_env ''score'' (keys row_magnitude_only) ''api'',
                      generate_unique sample_env ''score_scaled'' (keys row_magnitude_only)
                        ''api'',
                      generate_unique sample_env ''magnitude'' (keys row_magnitude_only)
                        ''api'']"
    by code_simp
  have n2: "generate_unique sample_env ''score_scaled'' (keys row_magnitude_only) ''api'' =
              ''api_score_scaled''"
    "generate_unique sample_env ''score'' (keys row_magnitude_only) ''api'' = ''api_score''"
    by code_simp+
  have s2: "field_or (field_or ?resp2 ''documentSentiment'' (JObj [])) ''score'' JNull = JNull"
    by (simp add: field_or_def)
  have e1: "scale_sentiment_score sample_env (JNum (1 / 2)) ''ternary'' = Inr (JStr ''positive'')"
    by code_simp
  have ne: "JNum (1 / 2) \<noteq> JNull"
    by simp
  from scaled_score_null_iff_score_null [OF a1 a2 a3 a4]
  have "\<exists>v. scale_sentiment_score sample_env (JNum (1 / 2)) ''ternary'' = Inr v
            \<and> map_of ?r1 ''api_score_scaled'' = Some v"
    unfolding n1 s1 using ne by blast
  then obtain v where "scale_sentiment_score sample_env (JNum (1 / 2)) ''ternary'' = Inr v"
    and m: "map_of ?r1 ''api_score_scaled'' = Some v"
    by blast
  with e1 have "v = JStr ''positive''" by simp
  with m have c1: "map_of ?r1 ''api_score_scaled'' = Some (JStr ''positive'')" by blast
  from scaled_score_null_iff_score_null [OF b1 b2 b3 b4]
  have c2: "map_of ?r2 ''api_score_scaled'' = Some JNull \<and> map_of ?r2 ''api_score'' = Some JNull"
    unfolding n2 s2 by blast
  from a1 b1 e1 c1 c2 show ?thesis by blast
qed




section \<open>Malformed JSON under the log policy\<close>

lemma safe_json_loads_invalid_LOG:
  "json_loads env s = None \<Longrightarrow> safe_json_loads env (JStr s) LOG = Inr (JObj [])"
  by (simp add: safe_json_loads_def)

lemma zip_constant:
  "length cols = length ns \<Longrightarrow> zip cols (map (\<lambda>n. v) ns) = map (\<lambda>c. (c, v)) cols"
  by (induction cols ns rule: list_induct2) simp_all

lemma slot_entries_no_categories:
  "length ns = length cols \<Longrightarrow>
     concat (map2 (slot_entries []) ns cols) =
       concat (map (\<lambda>p. [(fst p, JStr ''''), (snd p, JNull)]) cols)"
  by (induction ns cols rule: list_induct2) (simp_all add: slot_entries_def category_slot_def)

lemma three_nulls:
  assumes "c1 \<notin> set (keys r)" and "c2 \<notin> set (keys r)" and "c3 \<notin> set (keys r)"
  shows "AList.update c3 JNull (AList.update c2 JNull (AList.update c1 JNull r)) =
           r @ AList.update c3 JNull (AList.update c2 JNull [(c1, JNull)])"
proof -
  have "AList.update c1 JNull r = r @ [(c1, JNull)]"
    using assms(1) by (rule update_fresh)
  then show ?thesis
    using assms(2,3) by (simp add: update_append_right)
qed

text \<open>
  Claim C5. When the response column holds a string that does not decode as JSON and the
  error handling is \<open>LOG\<close>, none of the three formatters raises and each returns the
  row followed by sentinel values only: the empty string in every entity-type column
  (and in the single entities or categories column), \<^verbatim>\<open>None\<close> in the score, the
  scaled-score and the magnitude column, and the empty string and \<^verbatim>\<open>None\<close> in every
  pair of category columns. The name generator is assumed to return fresh names and to
  keep the name and the confidence column of a category apart.
\<close>

theorem invalid_json_under_LOG:
  assumes "generates_fresh env column_prefix"
    and "category_columns_differ env column_prefix"
    and "map_of r response_column = Some (JStr s)"
    and "json_loads env s = None"
  shows "(\<exists>cols. length cols = length (entity_type_members env) \<and> distinct cols
            \<and> set cols \<inter> set (keys r) = {}
            \<and> format_named_entity_recognition env r response_column MULTIPLE_COLUMNS
                 column_prefix LOG = (r @ map (\<lambda>c. (c, JStr '''')) cols, None))
       \<and> format_named_entity_recognition env r response_column SINGLE_COLUMN
            column_prefix LOG =
            (r @ [(generate_unique env ''entities'' (keys r) column_prefix, JStr '''')], None)
       \<and> format_sentiment_analysis env r response_column sentiment_scale column_prefix LOG =
            (r @ AList.update (generate_unique env ''magnitude'' (keys r) column_prefix) JNull
                   (AList.update (generate_unique env ''score_scaled'' (keys r) column_prefix)
                      JNull
                      [(generate_unique env ''score'' (keys r) column_prefix, JNull)]),
             None)
       \<and> (\<exists>cols. length cols = nat num_categories \<and> distinct (column_names cols)
            \<and> set (column_names cols) \<inter> set (keys r) = {}
            \<and> format_text_classification env r response_column MULTIPLE_COLUMNS
                 num_categories column_prefix LOG =
                (r @ concat (map (\<lambda>p. [(fst p, JStr ''''), (snd p, JNull)]) cols), None))
       \<and> format_text_classification env r response_column SINGLE_COLUMN num_categories
            column_prefix LOG =
            (r @ [(generate_unique env ''categories'' (keys r) column_prefix, JStr '''')], None)"
proof -
  have loads: "safe_json_loads env (JStr s) LOG = Inr (JObj [])"
    using assms(4) by (rule safe_json_loads_invalid_LOG)
  have fresh: "generate_unique env name (keys r) column_prefix \<notin> set (keys r)" for name
    using assms(1) by (simp add: generates_fresh_def)
  have ner: "\<exists>cols. length cols = length (entity_type_members env) \<and> distinct cols
            \<and> set cols \<inter> set (keys r) = {}
            \<and> format_named_entity_recognition env r response_column MULTIPLE_COLUMNS
                 column_prefix LOG = (r @ map (\<lambda>c. (c, JStr '''')) cols, None)"
  proof -
    have run: "format_named_entity_recognition env r response_column MULTIPLE_COLUMNS
                 column_prefix LOG =
               entity_type_loop env column_prefix (JArr []) r (entity_type_members env)"
      using assms(3) loads by (simp add: format_named_entity_recognition_def)
    have "\<forall>n \<in> set (entity_type_members env).
            names_of_type [] n = Inr (map entity_name (filter (entity_type_is n) []))"
      by simp
    from entity_type_loop_columns [OF assms(1) this, of r] obtain cols where
      len: "length cols = length (entity_type_members env)" and "distinct cols"
      and "set cols \<inter> set (keys r) = {}"
      and res: "entity_type_loop env column_prefix (JArr []) r (entity_type_members env) =
             (r @ zip cols (map (entity_column_value []) (entity_type_members env)), None)"
      by blast
    moreover have "entity_column_value [] = (\<lambda>n. JStr '''')"
      by (rule ext) (simp add: entity_column_value_def)
    then have "zip cols (map (entity_column_value []) (entity_type_members env)) =
        map (\<lambda>c. (c, JStr '''')) cols"
      using zip_constant [OF len, of "JStr ''''"] by simp
    ultimately show ?thesis unfolding run by auto
  qed
  have ner1: "format_named_entity_recognition env r response_column SINGLE_COLUMN
            column_prefix LOG =
            (r @ [(generate_unique env ''entities'' (keys r) column_prefix, JStr '''')], None)"
    using assms(3) loads update_fresh [OF fresh [of "''entities''"], of "JStr ''''"]
    by (simp add: format_named_entity_recognition_def Let_def)
  have sent: "format_sentiment_analysis env r response_column sentiment_scale column_prefix
            LOG =
            (r @ AList.update (generate_unique env ''magnitude'' (keys r) column_prefix) JNull
                   (AList.update (generate_unique env ''score_scaled'' (keys r) column_prefix)
                      JNull
                      [(generate_unique env ''score'' (keys r) column_prefix, JNull)]),
             None)"
    using assms(3) loads
      three_nulls [OF fresh [of "''score''"] fresh [of "''score_scaled''"]
        fresh [of "''magnitude''"]]
    by (simp add: format_sentiment_analysis_def Let_def write_score_def write_magnitude_def)
  have cls: "\<exists>cols. length cols = nat num_categories \<and> distinct (column_names cols)
            \<and> set (column_names cols) \<inter> set (keys r) = {}
            \<and> format_text_classification env r response_column MULTIPLE_COLUMNS
                 num_categories column_prefix LOG =
                (r @ concat (map (\<lambda>p. [(fst p, JStr ''''), (snd p, JNull)]) cols), None)"
  proof -
    have run: "format_text_classification env r response_column MULTIPLE_COLUMNS
                 num_categories column_prefix LOG =
               category_loop env column_prefix [] r [0 ..< nat num_categories]"
      using assms(3) loads
      by (simp add: format_text_classification_def sorted_by_confidence_def)
    have "\<forall>c \<in> set []. is_object c" by simp
    from category_loop_columns [OF assms(1,2) this, of "[0 ..< nat num_categories]" r]
    obtain cols where len: "length cols = length [0 ..< nat num_categories]"
      and "distinct (column_names cols)"
      and "set (column_names cols) \<inter> set (keys r) = {}"
      and res: "category_loop env column_prefix [] r [0 ..< nat num_categories] =
             (r @ concat (map2 (slot_entries []) [0 ..< nat num_categories] cols), None)"
      by blast
    moreover have "concat (map2 (slot_entries []) [0 ..< nat num_categories] cols) =
        concat (map (\<lambda>p. [(fst p, JStr ''''), (snd p, JNull)]) cols)"
      using len by (intro slot_entries_no_categories) simp
    ultimately show ?thesis unfolding run by auto
  qed
  have cls1: "format_text_classification env r response_column SINGLE_COLUMN num_categories
            column_prefix LOG =
            (r @ [(generate_unique env ''categories'' (keys r) column_prefix, JStr '''')], None)"
    using assms(3) loads update_fresh [OF fresh [of "''categories''"], of "JStr ''''"]
    by (simp add: format_text_classification_def Let_def)
  from ner ner1 sent cls cls1 show ?thesis by blast
qed

theorem invalid_json_under_LOG_witness:
  "generates_fresh sample_env ''api''
   \<and> category_columns_differ sample_env ''api''
   \<and> map_of row_not_json ''response'' = Some (JStr ''{not json'')
   \<and> json_loads sample_env ''{not json'' = None
   \<and> format_named_entity_recognition sample_env row_not_json ''response'' MULTIPLE_COLUMNS
        ''api'' LOG =
        (row_not_json @
           [(''api_entity_type_unknown'', JStr ''''),
            (''api_entity_type_person'', JStr ''''),
            (''api_entity_type_location'', JStr ''''),
            (''api_entity_type_organization'', JStr ''''),
            (''api_entity_type_event'', JStr ''''),
            (''api_entity_type_work_of_art'', JStr ''''),
            (''api_entity_type_consumer_good'', JStr ''''),
            (''api_entity_type_other'', JStr ''''),
            (''api_entity_type_phone_number'', JStr ''''),
            (''api_entity_type_address'', JStr ''''),
            (''api_entity_type_date'', JStr ''''),
            (''api_entity_type_number'', JStr ''''),
            (''api_entity_type_price'', JStr '''')], None)
   \<and> format_sentiment_analysis sample_env row_not_json ''response'' ''ternary'' ''api'' LOG =
        (row_not_json @
           [(''api_score'', JNull), (''api_score_scaled'', JNull), (''api_magnitude'', JNull)],
         None)
   \<and> format_text_classification sample_env row_not_json ''response'' MULTIPLE_COLUMNS 3
        ''api'' LOG =
        (row_not_json @
           [(''api_category_0'', JStr ''''), (''api_category_0_confidence'', JNull),
            (''api_category_1'', JStr ''''), (''api_category_1_confidence'', JNull),
            (''api_category_2'', JStr ''''), (''api_category_2_confidence'', JNull)], None)"
proof -
  have h3: "map_of row_not_json ''response'' = Some (JStr ''{not json'')"
    by code_simp
  have h4: "json_loads sample_env ''{not json'' = None"
    by code_simp
  have names: "generate_unique sample_env ''score'' (keys row_not_json) ''api'' = ''api_score''"
    "generate_unique sample_env ''score_scaled'' (keys row_not_json) ''api'' =
       ''api_score_scaled''"
    "generate_unique sample_env ''magnitude'' (keys row_not_json) ''api'' = ''api_magnitude''"
    by code_simp+
  have ner: "format_named_entity_recognition sample_env row_not_json ''response''
        MULTIPLE_COLUMNS ''api'' LOG =
        (row_not_json @
           [(''api_entity_type_unknown'', JStr ''''),
            (''api_entity_type_person'', JStr ''''),
            (''api_entity_type_location'', JStr ''''),
            (''api_entity_type_organization'', JStr ''''),
            (''api_entity_type_event'', JStr ''''),
            (''api_entity_type_work_of_art'', JStr ''''),
            (''api_entity_type_consumer_good'', JStr ''''),
            (''api_entity_type_other'', JStr ''''),
            (''api_entity_type_phone_number'', JStr ''''),
            (''api_entity_type_address'', JStr ''''),
            (''api_entity_type_date'', JStr ''''),
            (''api_entity_type_number'', JStr ''''),
            (''api_entity_type_price'', JStr '''')], None)"
    by code_simp
  have cls: "format_text_classification sample_env row_not_json ''response'' MULTIPLE_COLUMNS 3
        ''api'' LOG =
        (row_not_json @
           [(''api_category_0'', JStr ''''), (''api_category_0_confidence'', JNull),
            (''api_category_1'', JStr ''''), (''api_category_1_confidence'', JNull),
            (''api_category_2'', JStr ''''), (''api_category_2_confidence'', JNull)], None)"
    by code_simp
  from invalid_json_under_LOG
         [OF sample_env_generates_fresh sample_env_category_columns_differ h3 h4,
          where column_prefix = "''api''" and sentiment_scale = "''ternary''"
            and num_categories = 3]
  have "format_sentiment_analysis sample_env row_not_json ''response'' ''ternary'' ''api'' LOG =
        (row_not_json @
           [(''api_score'', JNull), (''api_score_scaled'', JNull), (''api_magnitude'', JNull)],
         None)"
    by (simp add: names)
  with sample_env_generates_fresh [of "''api''"] sample_env_category_columns_differ [of "''api''"]
    h3 h4 ner cls
  show ?thesis by blast
qed

end
